theory Spec2Isabelle
  imports Main "HOL-Library.AList" "HOL-Library.Sublist"
begin

section \<open>The request pipeline of the UTDRS API gateway\<close>

text \<open>
  The gateway is a FastAPI application (\<^verbatim>\<open>app.py\<close>) wrapped in three middleware classes of
  its own: \<^verbatim>\<open>SecurityMiddleware\<close> and \<^verbatim>\<open>RequestValidationMiddleware\<close>
  (\<^verbatim>\<open>api/middleware/security.py\<close>) and \<^verbatim>\<open>ErrorHandlerMiddleware\<close>
  (\<^verbatim>\<open>api/middleware/error_handler.py\<close>). This theory embeds these classes, the exception
  handlers and the two sanitizing functions as HOL functions and proves what they do.

  Python values that travel through JSON bodies are values of the type \<open>json\<close>; a Python
  \<^verbatim>\<open>dict\<close> keeps its insertion order and is an association list. Strings are lists of
  8-bit characters (the framework decodes header bytes as Latin-1). Floating-point
  numbers do not occur in any body built by the code and are left out.
\<close>

subsection \<open>Values and strings\<close>

datatype json =
    JNull
  | JBool bool
  | JInt int
  | JStr string
  | JList "json list"
  | JDict "(string \<times> json) list"

text \<open>\<^verbatim>\<open>None\<close> or a string, as it is written into a JSON body.\<close>

definition opt_str :: "string option \<Rightarrow> json" where
  "opt_str x = (case x of None \<Rightarrow> JNull | Some s \<Rightarrow> JStr s)"

text \<open>
  \<^verbatim>\<open>str.lower()\<close> on characters below 256: the ASCII capitals and the Latin-1 capitals
  (0xC0 to 0xDE without the multiplication sign 0xD7) are replaced by their small
  letters, 32 places further on.
\<close>

definition upper_chars :: string where
  "upper_chars =
     ''ABCDEFGHIJKLMNOPQRSTUVWXYZ'' @
       [
        CHR 0xC0, CHR 0xC1, CHR 0xC2, CHR 0xC3, CHR 0xC4, CHR 0xC5, CHR 0xC6, CHR 0xC7,
        CHR 0xC8, CHR 0xC9, CHR 0xCA, CHR 0xCB, CHR 0xCC, CHR 0xCD, CHR 0xCE, CHR 0xCF,
        CHR 0xD0, CHR 0xD1, CHR 0xD2, CHR 0xD3, CHR 0xD4, CHR 0xD5, CHR 0xD6, CHR 0xD8,
        CHR 0xD9, CHR 0xDA, CHR 0xDB, CHR 0xDC, CHR 0xDD, CHR 0xDE]"

definition lower_chars :: string where
  "lower_chars =
     ''abcdefghijklmnopqrstuvwxyz'' @
       [
        CHR 0xE0, CHR 0xE1, CHR 0xE2, CHR 0xE3, CHR 0xE4, CHR 0xE5, CHR 0xE6, CHR 0xE7,
        CHR 0xE8, CHR 0xE9, CHR 0xEA, CHR 0xEB, CHR 0xEC, CHR 0xED, CHR 0xEE, CHR 0xEF,
        CHR 0xF0, CHR 0xF1, CHR 0xF2, CHR 0xF3, CHR 0xF4, CHR 0xF5, CHR 0xF6, CHR 0xF8,
        CHR 0xF9, CHR 0xFA, CHR 0xFB, CHR 0xFC, CHR 0xFD, CHR 0xFE]"

definition lower_char :: "char \<Rightarrow> char" where
  "lower_char c = (case map_of (zip upper_chars lower_chars) c of None \<Rightarrow> c | Some d \<Rightarrow> d)"

definition lower :: "string \<Rightarrow> string" where
  "lower s = map lower_char s"

text \<open>The Python test \<^verbatim>\<open>sub in s\<close> on strings: \<open>sub\<close> occurs in \<open>s\<close> as a contiguous block.\<close>

fun str_in :: "string \<Rightarrow> string \<Rightarrow> bool" where
  "str_in sub [] = (sub = [])"
| "str_in sub (c # cs) = (prefix sub (c # cs) \<or> str_in sub cs)"

text \<open>\<^verbatim>\<open>sep.join(parts)\<close>.\<close>

fun join :: "string \<Rightarrow> string list \<Rightarrow> string" where
  "join sep [] = []"
| "join sep [x] = x"
| "join sep (x # y # ys) = x @ sep @ join sep (y # ys)"

text \<open>\<^verbatim>\<open>str(n)\<close> for an integer: decimal digits, a minus sign for negative numbers.\<close>

definition digit_char :: "nat \<Rightarrow> char" where
  "digit_char d = ''0123456789'' ! d"

fun str_nat :: "nat \<Rightarrow> string" where
  "str_nat n = (if n < 10 then [digit_char n] else str_nat (n div 10) @ [digit_char (n mod 10)])"

definition str_int :: "int \<Rightarrow> string" where
  "str_int i = (if i < 0 then CHR ''-'' # str_nat (nat (- i)) else str_nat (nat i))"

text \<open>
  \<^verbatim>\<open>int(s)\<close> in base 10, with \<open>None\<close> for the \<^verbatim>\<open>ValueError\<close>. The interpreter
  drops white space around the literal (tab, line feed, vertical tab, form feed,
  carriage return and space, and of the characters above 127 the next-line
  character 0x85 and the no-break space 0xA0; the separators 0x1C to 0x1F are not
  dropped), allows one sign, and allows the digits to be grouped by single
  underscores between two digits. With its default setting it refuses a literal
  of more than 4300 digits.
\<close>

definition is_space :: "char \<Rightarrow> bool" where
  "is_space c =
     (c \<in> set [CHR 0x09, CHR 0x0A, CHR 0x0B, CHR 0x0C, CHR 0x0D, CHR 0x20, CHR 0x85, CHR 0xA0])"

definition is_digit :: "char \<Rightarrow> bool" where
  "is_digit c = (c \<in> set ''0123456789'')"

definition digit_val :: "char \<Rightarrow> int" where
  "digit_val c =
     (case map_of (zip ''0123456789'' [0, 1, 2, 3, 4, 5, 6, 7, 8, 9]) c of
        None \<Rightarrow> 0
      | Some v \<Rightarrow> v)"

definition strip :: "string \<Rightarrow> string" where
  "strip s = rev (dropWhile is_space (rev (dropWhile is_space s)))"

fun parse_digits :: "int \<Rightarrow> string \<Rightarrow> int option" where
  "parse_digits acc [] = Some acc"
| "parse_digits acc (c # cs) =
     (if is_digit c then parse_digits (10 * acc + digit_val c) cs
      else if c = CHR ''_'' then
        (case cs of
           [] \<Rightarrow> None
         | d # ds \<Rightarrow> if is_digit d then parse_digits (10 * acc + digit_val d) ds else None)
      else None)"

definition max_str_digits :: nat where
  "max_str_digits = 4300"

definition py_digits :: "string \<Rightarrow> int option" where
  "py_digits s =
     (case s of
        [] \<Rightarrow> None
      | c # cs \<Rightarrow>
          if is_digit c then
            (case parse_digits (digit_val c) cs of
               None \<Rightarrow> None
             | Some n \<Rightarrow> if length (filter is_digit s) > max_str_digits then None else Some n)
          else None)"

definition py_int :: "string \<Rightarrow> int option" where
  "py_int s =
     (case strip s of
        [] \<Rightarrow> None
      | c # cs \<Rightarrow>
          if c = CHR ''-'' then map_option uminus (py_digits cs)
          else if c = CHR ''+'' then py_digits cs
          else py_digits (c # cs))"

subsection \<open>The sanitizer\<close>

text \<open>
  Modelled from the spec: \<^verbatim>\<open>bleach.clean(data, tags=[], attributes={}, strip=True)\<close>, a
  function of the \<^verbatim>\<open>bleach\<close> library, which is not among the sources. The spec says of it:
  strip all markup tags and attributes (zero tags and attributes allowed); the result is
  plain text with the tags removed, not escaped and kept; the text content is retained.
  A tag is read here as a \<open><\<close> together with everything up to the next \<open>>\<close>; a \<open><\<close>
  that no \<open>>\<close> follows is text. \<open>strip_tags\<close> scans the string, its flag telling whether
  the scan is inside a tag.
\<close>

fun strip_tags :: "bool \<Rightarrow> string \<Rightarrow> string" where
  "strip_tags in_tag [] = []"
| "strip_tags True (c # cs) = (if c = CHR ''>'' then strip_tags False cs else strip_tags True cs)"
| "strip_tags False (c # cs) =
     (if c = CHR ''<'' \<and> CHR ''>'' \<in> set cs then strip_tags True cs
      else c # strip_tags False cs)"

definition bleach_clean :: "string \<Rightarrow> string" where
  "bleach_clean s = strip_tags False s"

text \<open>
  \<^verbatim>\<open>sanitize_input\<close> and \<^verbatim>\<open>validate_json_input\<close> take the cleaning function as their
  first argument, so that what they do with it can be stated for any such function.
\<close>

definition sanitize_input :: "(string \<Rightarrow> string) \<Rightarrow> json \<Rightarrow> json" where
  "sanitize_input clean data =
     (case data of JStr s \<Rightarrow> JStr (clean s) | _ \<Rightarrow> data)"

fun validate_json_input :: "(string \<Rightarrow> string) \<Rightarrow> json \<Rightarrow> json" where
  "validate_json_input clean (JDict kvs) =
     JDict (map (\<lambda>(key, value). (key,
       (case value of
          JStr s \<Rightarrow> sanitize_input clean value
        | JDict d \<Rightarrow> validate_json_input clean value
        | JList items \<Rightarrow>
            JList (map (\<lambda>item.
              (case item of
                 JStr s \<Rightarrow> sanitize_input clean item
               | JDict d \<Rightarrow> validate_json_input clean item
               | _ \<Rightarrow> item)) items)
        | _ \<Rightarrow> value))) kvs)"
| "validate_json_input clean v = v"

text \<open>No complete tag is left in a string: no \<open><\<close> has a \<open>>\<close> after it.\<close>

fun no_tag :: "string \<Rightarrow> bool" where
  "no_tag [] = True"
| "no_tag (c # cs) = (\<not> (c = CHR ''<'' \<and> CHR ''>'' \<in> set cs) \<and> no_tag cs)"

subsection \<open>Exceptions\<close>

text \<open>
  The exceptions the code distinguishes. \<open>HTTPException\<close> is the class of FastAPI,
  with its status code, detail and optional headers. A validation failure carries
  the list that \<^verbatim>\<open>exc.errors()\<close> returns: dictionaries with a location path of
  strings and integers, a message and a type tag, and further keys that the
  middleware does not read. \<open>RateLimitExceeded\<close> is the class of \<^verbatim>\<open>slowapi\<close>, an HTTP
  exception of the framework with status 429 whose detail describes the limit.
  \<open>ValueError\<close> is the error of \<^verbatim>\<open>int(..)\<close>, with the string that failed to parse;
  \<open>AttributeError\<close> names a class and the attribute that its objects lack;
  \<open>OtherException\<close> is an exception of any other class derived from
  \<^verbatim>\<open>Exception\<close>, with its class name and message; \<open>BaseException\<close> is one whose
  class is not derived from \<^verbatim>\<open>Exception\<close> (a cancelled task, an interrupt, an
  exit), which \<^verbatim>\<open>except Exception\<close> does not catch.
\<close>

type_synonym headers = "(string \<times> string) list"

datatype loc_item = LocStr string | LocInt int

record error_dict =
  loc :: "loc_item list"
  msg :: string
  type :: string
  other_keys :: "(string \<times> json) list"

datatype exc =
    HTTPException nat json "headers option"
  | RequestValidationError "error_dict list"
  | ValidationError "error_dict list"
  | BusinessLogicError string "string option"
  | DatabaseError string "string option"
  | ExternalServiceError string "string option" "int option"
  | RateLimitExceeded string
  | ValueError string
  | AttributeError string string
  | OtherException string string
  | BaseException string string

text \<open>\<^verbatim>\<open>isinstance(exc, Exception)\<close>.\<close>

definition is_Exception :: "exc \<Rightarrow> bool" where
  "is_Exception e = (case e of BaseException c m \<Rightarrow> False | _ \<Rightarrow> True)"

subsection \<open>Requests, responses and the world a request runs in\<close>

text \<open>
  An ASGI application is called with a scope (the request's metadata), a \<^verbatim>\<open>receive\<close>
  callable (never used by the code, left out) and a \<^verbatim>\<open>send\<close> callable, to which it
  passes the messages of its response. Header names in a scope are lower-case.

  The code reads the scope through a \<^verbatim>\<open>Request\<close> object. Two of the values it reads
  are derived by the framework: \<open>url\<close> is \<^verbatim>\<open>str(request.url)\<close>, the URL that the
  framework builds from the scheme, the \<^verbatim>\<open>Host\<close> header, the path and the query
  string; \<open>url_path\<close> is the outcome of \<^verbatim>\<open>request.url.path\<close>, for which the framework
  has the URL parser of the standard library split that URL. The parser raises
  \<^verbatim>\<open>ValueError\<close> for some hosts (a bracket without its partner, for one), and a
  host that contains a slash, a question mark or a hash sign moves the path; so
  the outcome is an exception or a string.
\<close>

datatype scope_type = Http | Websocket | Lifespan

record scope =
  scope_type :: scope_type
  http_method :: string
  url :: string
  url_path :: "exc + string"
  headers :: headers
  client :: "string option"

text \<open>\<^verbatim>\<open>request.headers.get(key)\<close>: the value of the first header of that name.\<close>

definition headers_get :: "headers \<Rightarrow> string \<Rightarrow> string option" where
  "headers_get hs key = map_of hs (lower key)"

text \<open>
  \<^verbatim>\<open>get_remote_address(request)\<close> of \<^verbatim>\<open>slowapi\<close>: the client's host, or the loopback address
  when there is no client or its host is empty.
\<close>

definition get_remote_address :: "scope \<Rightarrow> string" where
  "get_remote_address sc =
     (case client sc of None \<Rightarrow> ''127.0.0.1'' | Some h \<Rightarrow> if h = [] then ''127.0.0.1'' else h)"

text \<open>
  The messages of a response: \<^verbatim>\<open>http.response.start\<close>, and \<^verbatim>\<open>http.response.body\<close> with a
  rendered JSON value or with no bytes at all.
\<close>

datatype message =
    ResponseStart nat headers
  | ResponseBody json
  | ResponseBodyEmpty

record response =
  status_code :: nat
  raw_headers :: headers
  content :: "json option"

text \<open>
  The headers of a response, as the framework's \<^verbatim>\<open>Response.init_headers\<close> sets them:
  the headers given to the constructor with their names in lower case, then the
  content length and the content type unless a given header has that name; the
  content length is left out for a status below 200 and for 204 and 304. For a
  JSON body the content length and content type headers are computed by the
  framework from the rendered body; the function that does it is the parameter
  \<open>ih\<close>. A response without content has an empty body and no content type.
\<close>

definition init_headers ::
  "(json \<Rightarrow> headers) \<Rightarrow> nat \<Rightarrow> headers option \<Rightarrow> json option \<Rightarrow> headers" where
  "init_headers ih sc given body =
     (let raw = (case given of None \<Rightarrow> [] | Some hs \<Rightarrow> map (\<lambda>h. (lower (fst h), snd h)) hs);
          populated = (case body of None \<Rightarrow> [(''content-length'', ''0'')] | Some c \<Rightarrow> ih c)
      in raw @
         filter (\<lambda>h. fst h \<notin> set (map fst raw) \<and>
                     \<not> (fst h = ''content-length'' \<and> (sc < 200 \<or> sc = 204 \<or> sc = 304)))
           populated)"

text \<open>\<^verbatim>\<open>JSONResponse(status_code=.., content=..)\<close>.\<close>

definition JSONResponse :: "(json \<Rightarrow> headers) \<Rightarrow> nat \<Rightarrow> json \<Rightarrow> response" where
  "JSONResponse ih sc c =
     \<lparr>status_code = sc, raw_headers = init_headers ih sc None (Some c), content = Some c\<rparr>"

text \<open>
  The log sink. An event has a level, a name and keyword fields. A field holds a JSON
  value or one of the values that the code derives from an exception or from the
  clock and that are not rendered here: \<^verbatim>\<open>type(exc).__name__\<close>, \<^verbatim>\<open>str(exc)\<close>,
  \<^verbatim>\<open>traceback.format_exc()\<close> and the elapsed wall-clock time.
\<close>

datatype level = Info | Warning | Error

datatype log_value =
    LJson json
  | LTypeName exc
  | LMessage exc
  | LTraceback exc
  | LProcessTime

type_synonym log_event = "level \<times> string \<times> (string \<times> log_value) list"

text \<open>
  What a request can change: the messages sent to the client, the log, the attribute
  \<^verbatim>\<open>request.state.request_id\<close>, and the number of calls of a route handler. The
  framework keeps \<^verbatim>\<open>request.state\<close> in the scope dictionary (under the key
  \<^verbatim>\<open>state\<close>), and every middleware passes the scope on as it is, so all
  \<^verbatim>\<open>Request\<close> objects built for one request see the same state.
\<close>

record world =
  wire :: "message list"
  logs :: "log_event list"
  state_request_id :: "string option"
  handler_calls :: nat

type_synonym send = "message \<Rightarrow> world \<Rightarrow> world"

type_synonym asgi_app = "scope \<Rightarrow> send \<Rightarrow> world \<Rightarrow> (exc + unit) \<times> world"

definition logger :: "level \<Rightarrow> string \<Rightarrow> (string \<times> log_value) list \<Rightarrow> world \<Rightarrow> world" where
  "logger lvl event kw w = w\<lparr>logs := logs w @ [(lvl, event, kw)]\<rparr>"

text \<open>The server's own \<^verbatim>\<open>send\<close>: the message goes to the client.\<close>

definition server_send :: send where
  "server_send m w = w\<lparr>wire := wire w @ [m]\<rparr>"

text \<open>\<^verbatim>\<open>await response(scope, receive, send)\<close>: the start message, then the body.\<close>

definition response_call :: "response \<Rightarrow> send \<Rightarrow> world \<Rightarrow> world" where
  "response_call r snd_fn w =
     snd_fn (case content r of None \<Rightarrow> ResponseBodyEmpty | Some c \<Rightarrow> ResponseBody c)
       (snd_fn (ResponseStart (status_code r) (raw_headers r)) w)"

subsection \<open>The error handler (\<^verbatim>\<open>api/middleware/error_handler.py\<close>)\<close>

text \<open>
  Every handler of the middleware evaluates the keyword arguments of its log call,
  \<^verbatim>\<open>request.url.path\<close> among them, logs one event and returns a JSON response. When
  \<^verbatim>\<open>request.url.path\<close> raises, nothing is logged and no response is built: the
  exception leaves the handler. A handler gets the world and returns it with the
  event added. The leading underscore of the Python method names is dropped.
\<close>

definition str_loc :: "loc_item \<Rightarrow> string" where
  "str_loc x = (case x of LocStr s \<Rightarrow> s | LocInt n \<Rightarrow> str_int n)"

text \<open>The loop over \<^verbatim>\<open>exc.errors()\<close> that appends one dictionary for each failure.\<close>

fun field_errors :: "error_dict list \<Rightarrow> json list \<Rightarrow> json list" where
  "field_errors [] errors = errors"
| "field_errors (error # rest) errors =
     field_errors rest
       (errors @
        [JDict [(''field'', JStr (join ''.'' (map str_loc (loc error)))),
                (''message'', JStr (msg error)),
                (''type'', JStr (type error))]])"

definition handle_http_exception ::
  "(json \<Rightarrow> headers) \<Rightarrow> scope \<Rightarrow> nat \<Rightarrow> json \<Rightarrow> string option \<Rightarrow> world
     \<Rightarrow> (exc + response) \<times> world" where
  "handle_http_exception ih request sc detail request_id w =
     (case url_path request of
        Inl e \<Rightarrow> (Inl e, w)
      | Inr p \<Rightarrow>
          (Inr (JSONResponse ih sc
                  (JDict [(''error'', JStr ''HTTP_EXCEPTION''),
                          (''detail'', detail),
                          (''request_id'', opt_str request_id)])),
           logger Warning ''HTTP exception occurred''
             [(''status_code'', LJson (JInt (int sc))),
              (''detail'', LJson detail),
              (''request_id'', LJson (opt_str request_id)),
              (''path'', LJson (JStr p)),
              (''method'', LJson (JStr (http_method request)))] w))"

definition handle_validation_error ::
  "(json \<Rightarrow> headers) \<Rightarrow> scope \<Rightarrow> error_dict list \<Rightarrow> string option \<Rightarrow> world
     \<Rightarrow> (exc + response) \<times> world" where
  "handle_validation_error ih request exc_errors request_id w =
     (let errors = field_errors exc_errors [] in
      case url_path request of
        Inl e \<Rightarrow> (Inl e, w)
      | Inr p \<Rightarrow>
          (Inr (JSONResponse ih 422
                  (JDict [(''error'', JStr ''VALIDATION_ERROR''),
                          (''detail'', JStr ''Request validation failed''),
                          (''errors'', JList errors),
                          (''request_id'', opt_str request_id)])),
           logger Warning ''Request validation error''
             [(''errors'', LJson (JList errors)),
              (''request_id'', LJson (opt_str request_id)),
              (''path'', LJson (JStr p)),
              (''method'', LJson (JStr (http_method request)))] w))"

definition handle_pydantic_validation_error ::
  "(json \<Rightarrow> headers) \<Rightarrow> scope \<Rightarrow> error_dict list \<Rightarrow> string option \<Rightarrow> world
     \<Rightarrow> (exc + response) \<times> world" where
  "handle_pydantic_validation_error ih request exc_errors request_id w =
     (let errors = field_errors exc_errors [] in
      case url_path request of
        Inl e \<Rightarrow> (Inl e, w)
      | Inr p \<Rightarrow>
          (Inr (JSONResponse ih 422
                  (JDict [(''error'', JStr ''VALIDATION_ERROR''),
                          (''detail'', JStr ''Data validation failed''),
                          (''errors'', JList errors),
                          (''request_id'', opt_str request_id)])),
           logger Warning ''Pydantic validation error''
             [(''errors'', LJson (JList errors)),
              (''request_id'', LJson (opt_str request_id)),
              (''path'', LJson (JStr p)),
              (''method'', LJson (JStr (http_method request)))] w))"

definition handle_internal_error ::
  "(json \<Rightarrow> headers) \<Rightarrow> scope \<Rightarrow> exc \<Rightarrow> string option \<Rightarrow> world
     \<Rightarrow> (exc + response) \<times> world" where
  "handle_internal_error ih request exc request_id w =
     (case url_path request of
        Inl e \<Rightarrow> (Inl e, w)
      | Inr p \<Rightarrow>
          (Inr (JSONResponse ih 500
                  (JDict [(''error'', JStr ''INTERNAL_SERVER_ERROR''),
                          (''detail'', JStr ''An internal server error occurred''),
                          (''request_id'', opt_str request_id)])),
           logger Error ''Internal server error''
             [(''error_type'', LTypeName exc),
              (''error_message'', LMessage exc),
              (''traceback'', LTraceback exc),
              (''request_id'', LJson (opt_str request_id)),
              (''path'', LJson (JStr p)),
              (''method'', LJson (JStr (http_method request)))] w))"

text \<open>
  The chain of \<^verbatim>\<open>isinstance\<close> tests has three branches and a default; the exception
  classes of the module itself and every other class fall to the default. (So would
  the rate limit exception of \<^verbatim>\<open>slowapi\<close>, which derives from the HTTP exception of
  Starlette and not from the class of FastAPI that is tested here.)
\<close>

definition handle_exception ::
  "(json \<Rightarrow> headers) \<Rightarrow> scope \<Rightarrow> exc \<Rightarrow> world \<Rightarrow> (exc + response) \<times> world" where
  "handle_exception ih request exc w =
     (let request_id = state_request_id w in
      case exc of
        HTTPException sc detail hdrs \<Rightarrow> handle_http_exception ih request sc detail request_id w
      | RequestValidationError errs \<Rightarrow> handle_validation_error ih request errs request_id w
      | ValidationError errs \<Rightarrow> handle_pydantic_validation_error ih request errs request_id w
      | _ \<Rightarrow> handle_internal_error ih request exc request_id w)"

text \<open>
  \<^verbatim>\<open>ErrorHandlerMiddleware.__call__\<close>: the wrapped application runs inside
  \<^verbatim>\<open>try\<close>; an exception that leaves it and is caught by \<^verbatim>\<open>except Exception\<close> is
  turned into a response, sent with the \<^verbatim>\<open>send\<close> this middleware was called with.
  An exception raised while the response is made leaves the middleware.
\<close>

definition ErrorHandlerMiddleware_call :: "(json \<Rightarrow> headers) \<Rightarrow> asgi_app \<Rightarrow> asgi_app" where
  "ErrorHandlerMiddleware_call ih app sc snd_fn w =
     (if scope_type sc \<noteq> Http then app sc snd_fn w
      else
        (case app sc snd_fn w of
           (Inr u, w1) \<Rightarrow> (Inr u, w1)
         | (Inl exc, w1) \<Rightarrow>
             if is_Exception exc then
               (case handle_exception ih sc exc w1 of
                  (Inl e, w2) \<Rightarrow> (Inl e, w2)
                | (Inr response, w2) \<Rightarrow> (Inr (), response_call response snd_fn w2))
             else (Inl exc, w1)))"

text \<open>The handlers for the module's own exception classes.\<close>

definition business_logic_error_handler ::
  "(json \<Rightarrow> headers) \<Rightarrow> string \<Rightarrow> string option \<Rightarrow> world \<Rightarrow> response \<times> world" where
  "business_logic_error_handler ih message error_code w =
     (let request_id = state_request_id w in
      (JSONResponse ih 400
         (JDict [(''error'', JStr ''BUSINESS_LOGIC_ERROR''),
                 (''error_code'', opt_str error_code),
                 (''detail'', JStr message),
                 (''request_id'', opt_str request_id)]),
       logger Warning ''Business logic error''
         [(''error_code'', LJson (opt_str error_code)),
          (''message'', LJson (JStr message)),
          (''request_id'', LJson (opt_str request_id))] w))"

definition database_error_handler ::
  "(json \<Rightarrow> headers) \<Rightarrow> string \<Rightarrow> string option \<Rightarrow> world \<Rightarrow> response \<times> world" where
  "database_error_handler ih message operation w =
     (let request_id = state_request_id w in
      (JSONResponse ih 500
         (JDict [(''error'', JStr ''DATABASE_ERROR''),
                 (''detail'', JStr ''A database error occurred''),
                 (''request_id'', opt_str request_id)]),
       logger Error ''Database error''
         [(''operation'', LJson (opt_str operation)),
          (''message'', LJson (JStr message)),
          (''request_id'', LJson (opt_str request_id))] w))"

definition external_service_error_handler ::
  "(json \<Rightarrow> headers) \<Rightarrow> string \<Rightarrow> string option \<Rightarrow> int option \<Rightarrow> world \<Rightarrow> response \<times> world" where
  "external_service_error_handler ih message service upstream_status w =
     (let request_id = state_request_id w in
      (JSONResponse ih 502
         (JDict [(''error'', JStr ''EXTERNAL_SERVICE_ERROR''),
                 (''detail'', JStr (''External service ('' @
                    (case service of None \<Rightarrow> ''None'' | Some s \<Rightarrow> s) @ '') is unavailable'')),
                 (''request_id'', opt_str request_id)]),
       logger Error ''External service error''
         [(''service'', LJson (opt_str service)),
          (''status_code'', LJson (case upstream_status of None \<Rightarrow> JNull | Some n \<Rightarrow> JInt n)),
          (''message'', LJson (JStr message)),
          (''request_id'', LJson (opt_str request_id))] w))"

subsection \<open>The security middleware (\<^verbatim>\<open>api/middleware/security.py\<close>)\<close>

record SecurityMiddleware =
  allowed_hosts :: "string list"
  max_request_size :: int

text \<open>\<^verbatim>\<open>__init__\<close>: \<^verbatim>\<open>allowed_hosts or ["*"]\<close> replaces \<^verbatim>\<open>None\<close> and the empty list.\<close>

definition SecurityMiddleware_init :: "string list option \<Rightarrow> int \<Rightarrow> SecurityMiddleware" where
  "SecurityMiddleware_init hosts max_size =
     \<lparr>allowed_hosts = (case hosts of None \<Rightarrow> [''*''] | Some hs \<Rightarrow> if hs = [] then [''*''] else hs),
      max_request_size = max_size\<rparr>"

definition validate_host :: "SecurityMiddleware \<Rightarrow> scope \<Rightarrow> bool" where
  "validate_host self request =
     (if ''*'' \<in> set (allowed_hosts self) then True
      else
        (let host = lower (case headers_get (headers request) ''host'' of None \<Rightarrow> [] | Some h \<Rightarrow> h) in
         list_ex (\<lambda>allowed_host. str_in (lower allowed_host) host) (allowed_hosts self)))"

text \<open>
  The condition \<^verbatim>\<open>content_length and int(content_length) > self.max_request_size\<close>:
  a missing or empty header makes it false without a call of \<^verbatim>\<open>int\<close>; otherwise
  \<^verbatim>\<open>int\<close> may raise.
\<close>

definition too_large :: "SecurityMiddleware \<Rightarrow> string option \<Rightarrow> exc + bool" where
  "too_large self content_length =
     (case content_length of
        None \<Rightarrow> Inr False
      | Some cl \<Rightarrow>
          if cl = [] then Inr False
          else (case py_int cl of
                  None \<Rightarrow> Inl (ValueError cl)
                | Some n \<Rightarrow> Inr (n > max_request_size self)))"

text \<open>The value of the content security policy header ends with a single quote.\<close>

definition security_headers :: "string \<Rightarrow> headers" where
  "security_headers request_id =
     [(''x-content-type-options'', ''nosniff''),
      (''x-frame-options'', ''DENY''),
      (''x-xss-protection'', ''1; mode=block''),
      (''referrer-policy'', ''strict-origin-when-cross-origin''),
      (''content-security-policy'', ''default-src 'self'' @ [CHR 0x27]),
      (''x-request-id'', request_id)]"

text \<open>
  \<^verbatim>\<open>dict(pairs)\<close> followed by an assignment for each pair of a second list: a key that is
  already there keeps its place and takes the new value, a new key goes to the end.
\<close>

definition dict_update :: "headers \<Rightarrow> headers \<Rightarrow> headers" where
  "dict_update d kvs = foldl (\<lambda>acc (k, v). AList.update k v acc) d kvs"

definition security_send_wrapper :: "send \<Rightarrow> string \<Rightarrow> send" where
  "security_send_wrapper snd_fn request_id m w =
     (case m of
        ResponseStart sc hs \<Rightarrow>
          snd_fn (ResponseStart sc (dict_update (dict_update [] hs) (security_headers request_id))) w
      | _ \<Rightarrow> snd_fn m w)"

text \<open>
  \<^verbatim>\<open>SecurityMiddleware.__call__\<close>. The identifier that \<^verbatim>\<open>uuid.uuid4()\<close> draws for the
  request is the argument \<open>uuid4\<close>.
\<close>

definition SecurityMiddleware_call ::
  "(json \<Rightarrow> headers) \<Rightarrow> SecurityMiddleware \<Rightarrow> string \<Rightarrow> asgi_app \<Rightarrow> asgi_app" where
  "SecurityMiddleware_call ih self uuid4 app sc snd_fn w =
     (if scope_type sc \<noteq> Http then app sc snd_fn w
      else
        (let request_id = uuid4;
             w1 = w\<lparr>state_request_id := Some request_id\<rparr>
         in
         if \<not> validate_host self sc then
           (Inr (), response_call
              (JSONResponse ih 400 (JDict [(''detail'', JStr ''Invalid host header'')])) snd_fn w1)
         else
           (case too_large self (headers_get (headers sc) ''content-length'') of
              Inl exc \<Rightarrow> (Inl exc, w1)
            | Inr True \<Rightarrow>
                (Inr (), response_call
                   (JSONResponse ih 413 (JDict [(''detail'', JStr ''Request too large'')])) snd_fn w1)
            | Inr False \<Rightarrow> app sc (security_send_wrapper snd_fn request_id) w1)))"

text \<open>\<^verbatim>\<open>RequestValidationMiddleware.__call__\<close>: two log events around the wrapped application.\<close>

definition logging_send_wrapper :: "send \<Rightarrow> send" where
  "logging_send_wrapper snd_fn m w =
     (case m of
        ResponseStart sc hs \<Rightarrow>
          snd_fn m
            (logger Info ''Request completed''
               [(''status_code'', LJson (JInt (int sc))),
                (''process_time'', LProcessTime),
                (''request_id'', LJson (opt_str (state_request_id w)))] w)
      | _ \<Rightarrow> snd_fn m w)"

definition RequestValidationMiddleware_call :: "asgi_app \<Rightarrow> asgi_app" where
  "RequestValidationMiddleware_call app sc snd_fn w =
     (if scope_type sc \<noteq> Http then app sc snd_fn w
      else
        app sc (logging_send_wrapper snd_fn)
          (logger Info ''Incoming request''
             [(''method'', LJson (JStr (http_method sc))),
              (''url'', LJson (JStr (url sc))),
              (''user_agent'', LJson (opt_str (headers_get (headers sc) ''user-agent''))),
              (''request_id'', LJson (opt_str (state_request_id w)))] w))"

text \<open>
  \<^verbatim>\<open>rate_limit_handler\<close>. It logs a warning and then builds the content of a 429
  response, for which it reads \<^verbatim>\<open>exc.retry_after\<close>. The exception class of
  \<^verbatim>\<open>slowapi\<close> sets the attributes \<^verbatim>\<open>limit\<close>, \<^verbatim>\<open>status_code\<close>, \<^verbatim>\<open>detail\<close> and
  \<^verbatim>\<open>headers\<close> and has no attribute \<^verbatim>\<open>retry_after\<close>: reading it raises
  \<^verbatim>\<open>AttributeError\<close>.
\<close>

definition RateLimitExceeded_retry_after :: "string \<Rightarrow> exc + json" where
  "RateLimitExceeded_retry_after detail = Inl (AttributeError ''RateLimitExceeded'' ''retry_after'')"

definition rate_limit_handler ::
  "(json \<Rightarrow> headers) \<Rightarrow> scope \<Rightarrow> string \<Rightarrow> world \<Rightarrow> (exc + response) \<times> world" where
  "rate_limit_handler ih request exc_detail w =
     (let w1 = logger Warning ''Rate limit exceeded''
                 [(''client_ip'', LJson (JStr (get_remote_address request))),
                  (''request_id'', LJson (opt_str (state_request_id w)))] w
      in
      case RateLimitExceeded_retry_after exc_detail of
        Inl e \<Rightarrow> (Inl e, w1)
      | Inr retry_after \<Rightarrow>
          (Inr (JSONResponse ih 429
                  (JDict [(''detail'', JStr ''Rate limit exceeded. Please try again later.''),
                          (''retry_after'', retry_after)])),
           w1))"

subsection \<open>The application (\<^verbatim>\<open>app.py\<close>)\<close>

text \<open>
  The routes are not part of the pipeline: a route is a function from the request
  and its state to a result; it returns a response or raises an exception.

  \<open>fastapi_app\<close> is the innermost application, the router of the framework inside
  its exception wrapper. The wrapper catches an exception of a route and looks it
  up among the registered handlers: \<^verbatim>\<open>app.py\<close> registers \<^verbatim>\<open>rate_limit_handler\<close> for
  \<^verbatim>\<open>RateLimitExceeded\<close>, and the framework itself registers a handler for HTTP
  exceptions and one for request validation errors. The response of a handler is
  sent from here, inside the middleware; an exception that has no handler, or
  that a handler raises, goes on to the middleware.

  The two handlers of the framework: an HTTP exception is answered with its status
  code and headers and the body \<^verbatim>\<open>{"detail": exc.detail}\<close>, without a body when the
  status does not allow one; a request validation error is answered with status
  422 and the body \<^verbatim>\<open>{"detail": exc.errors()}\<close>, each error dictionary with its
  keys as the validation library builds it.
\<close>

definition http_exception_handler ::
  "(json \<Rightarrow> headers) \<Rightarrow> nat \<Rightarrow> json \<Rightarrow> headers option \<Rightarrow> response" where
  "http_exception_handler ih sc detail hdrs =
     (if sc < 200 \<or> sc = 204 \<or> sc = 205 \<or> sc = 304 then
        \<lparr>status_code = sc, raw_headers = init_headers ih sc hdrs None, content = None\<rparr>
      else
        \<lparr>status_code = sc,
         raw_headers = init_headers ih sc hdrs (Some (JDict [(''detail'', detail)])),
         content = Some (JDict [(''detail'', detail)])\<rparr>)"

definition json_loc :: "loc_item \<Rightarrow> json" where
  "json_loc x = (case x of LocStr s \<Rightarrow> JStr s | LocInt n \<Rightarrow> JInt n)"

definition json_error :: "error_dict \<Rightarrow> json" where
  "json_error e =
     JDict ([(''loc'', JList (map json_loc (loc e))),
             (''msg'', JStr (msg e)),
             (''type'', JStr (type e))] @ other_keys e)"

definition request_validation_exception_handler ::
  "(json \<Rightarrow> headers) \<Rightarrow> error_dict list \<Rightarrow> response" where
  "request_validation_exception_handler ih errs =
     JSONResponse ih 422 (JDict [(''detail'', JList (map json_error errs))])"

datatype endpoint_result = Returns response | Raises exc

type_synonym endpoint = "scope \<Rightarrow> string option \<Rightarrow> endpoint_result"

definition fastapi_app :: "(json \<Rightarrow> headers) \<Rightarrow> endpoint \<Rightarrow> asgi_app" where
  "fastapi_app ih route sc snd_fn w =
     (let w1 = w\<lparr>handler_calls := handler_calls w + 1\<rparr> in
      case route sc (state_request_id w1) of
        Returns r \<Rightarrow> (Inr (), response_call r snd_fn w1)
      | Raises exc \<Rightarrow>
          (case exc of
             RateLimitExceeded exc_detail \<Rightarrow>
               (case rate_limit_handler ih sc exc_detail w1 of
                  (Inl e, w2) \<Rightarrow> (Inl e, w2)
                | (Inr r, w2) \<Rightarrow> (Inr (), response_call r snd_fn w2))
           | HTTPException code detail hdrs \<Rightarrow>
               (Inr (), response_call (http_exception_handler ih code detail hdrs) snd_fn w1)
           | RequestValidationError errs \<Rightarrow>
               (Inr (), response_call (request_validation_exception_handler ih errs) snd_fn w1)
           | _ \<Rightarrow> (Inl exc, w1)))"

text \<open>
  \<^verbatim>\<open>add_middleware\<close> puts each new middleware around the ones added before, so the
  error handler, added last of the three, is the outermost and the security
  middleware the innermost. The security middleware gets the configured
  \<^verbatim>\<open>ALLOWED_HOSTS\<close> and the default maximum size of 10 MiB. (The CORS middleware,
  added after them, and the server error middleware of the framework are outside
  all three and are not modelled: an exception that leaves \<open>app\<close> goes to them.)
\<close>

definition app :: "(json \<Rightarrow> headers) \<Rightarrow> string list option \<Rightarrow> string \<Rightarrow> endpoint \<Rightarrow> asgi_app" where
  "app ih ALLOWED_HOSTS uuid4 route =
     ErrorHandlerMiddleware_call ih
       (RequestValidationMiddleware_call
          (SecurityMiddleware_call ih
             (SecurityMiddleware_init ALLOWED_HOSTS (10 * 1024 * 1024)) uuid4
             (fastapi_app ih route)))"

text \<open>A response start message carries the six headers of the security middleware.\<close>

definition carries_security_headers :: "string \<Rightarrow> message \<Rightarrow> bool" where
  "carries_security_headers request_id m =
     (case m of
        ResponseStart sc hs \<Rightarrow>
          map_of hs ''x-content-type-options'' = Some ''nosniff'' \<and>
          map_of hs ''x-frame-options'' = Some ''DENY'' \<and>
          map_of hs ''x-xss-protection'' = Some ''1; mode=block'' \<and>
          map_of hs ''referrer-policy'' = Some ''strict-origin-when-cross-origin'' \<and>
          map_of hs ''content-security-policy'' = Some (''default-src 'self'' @ [CHR 0x27]) \<and>
          map_of hs ''x-request-id'' = Some request_id
      | _ \<Rightarrow> True)"

text \<open>
  The exceptions that none of the branches of the error handler and none of the
  registered handlers names, and that \<^verbatim>\<open>except Exception\<close> catches: the conversion
  error, the attribute error and every other class derived from \<^verbatim>\<open>Exception\<close>.
\<close>

definition unclassified :: "exc \<Rightarrow> bool" where
  "unclassified e =
     (case e of
        ValueError s \<Rightarrow> True
      | AttributeError c a \<Rightarrow> True
      | OtherException c m \<Rightarrow> True
      | _ \<Rightarrow> False)"

text \<open>The value of a key in a JSON object.\<close>

definition json_field :: "json \<Rightarrow> string \<Rightarrow> json option" where
  "json_field j k = (case j of JDict kvs \<Rightarrow> map_of kvs k | _ \<Rightarrow> None)"

text \<open>The body message of a response.\<close>

definition body_message :: "response \<Rightarrow> message" where
  "body_message r = (case content r of None \<Rightarrow> ResponseBodyEmpty | Some c \<Rightarrow> ResponseBody c)"

subsection \<open>Example inputs\<close>

text \<open>
  The headers of a JSON response whose rendered body has the given length, a world
  in which nothing has happened yet, an identifier as \<^verbatim>\<open>uuid4\<close> draws them, and a
  route that returns a small JSON response. \<open>example_scope\<close> is a GET request for
  \<^verbatim>\<open>/api/v1/health\<close> with the given headers, for a \<^verbatim>\<open>Host\<close> header that is a plain host
  name: the URL has that host and is split at the path. \<open>bracket_scope\<close> is the
  same request with the \<^verbatim>\<open>Host\<close> header \<^verbatim>\<open>[\<close>, which every allow-list with the
  wildcard accepts and for which the URL parser raises \<^verbatim>\<open>ValueError\<close>.
\<close>

definition json_headers :: "string \<Rightarrow> headers" where
  "json_headers n = [(''content-length'', n), (''content-type'', ''application/json'')]"

definition fresh_world :: world where
  "fresh_world = \<lparr>wire = [], logs = [], state_request_id = None, handler_calls = 0\<rparr>"

definition example_scope :: "headers \<Rightarrow> scope" where
  "example_scope hs =
     \<lparr>scope_type = Http, http_method = ''GET'',
      url = ''http://'' @ (case map_of hs ''host'' of None \<Rightarrow> ''127.0.0.1:8000'' | Some h \<Rightarrow> h)
              @ ''/api/v1/health'',
      url_path = Inr ''/api/v1/health'', headers = hs, client = Some ''10.0.0.5''\<rparr>"

definition bracket_scope :: scope where
  "bracket_scope =
     \<lparr>scope_type = Http, http_method = ''GET'', url = ''http://[/api/v1/health'',
      url_path = Inl (OtherException ''ValueError'' ''Invalid IPv6 URL''),
      headers = [(''host'', ''['')], client = Some ''10.0.0.5''\<rparr>"

definition example_uuid :: string where
  "example_uuid = ''0b6e1c2a-5d3f-4c8e-9a71-2f4d6e8a0c13''"

definition health_route :: endpoint where
  "health_route request state =
     Returns \<lparr>status_code = 200, raw_headers = json_headers ''15'',
              content = Some (JDict [(''status'', JStr ''ok'')])\<rparr>"

section \<open>Properties\<close>

subsection \<open>Auxiliary facts\<close>

lemmas string_defs =
  lower_def lower_char_def upper_chars_def lower_chars_def py_int_def strip_def
  is_space_def py_digits_def is_digit_def digit_val_def max_str_digits_def

lemmas example_defs =
  example_scope_def bracket_scope_def fresh_world_def json_headers_def example_uuid_def
  health_route_def headers_get_def validate_host_def too_large_def SecurityMiddleware_init_def

lemma JSONResponse_body_status:
  "\<not> (sc < 200 \<or> sc = 204 \<or> sc = 304) \<Longrightarrow>
   JSONResponse ih sc c = \<lparr>status_code = sc, raw_headers = ih c, content = Some c\<rparr>"
  by (simp add: JSONResponse_def init_headers_def)

lemmas pipeline_defs =
  app_def ErrorHandlerMiddleware_call_def RequestValidationMiddleware_call_def
  SecurityMiddleware_call_def fastapi_app_def response_call_def JSONResponse_body_status
  server_send_def logger_def security_send_wrapper_def logging_send_wrapper_def
  handle_exception_def handle_internal_error_def rate_limit_handler_def
  RateLimitExceeded_retry_after_def is_Exception_def Let_def

lemma set_strip_tags: "set (strip_tags b s) \<subseteq> set s"
  by (induction b s rule: strip_tags.induct) auto

lemma no_tag_strip_tags: "no_tag (strip_tags b s)"
proof (induction b s rule: strip_tags.induct)
  case (3 c cs)
  then show ?case using set_strip_tags [of False cs] by auto
qed auto

lemma strip_tags_no_tag: "no_tag s \<Longrightarrow> strip_tags False s = s"
  by (induction s) auto

lemma bleach_clean_idem: "bleach_clean (bleach_clean s) = bleach_clean s"
  by (simp add: bleach_clean_def strip_tags_no_tag no_tag_strip_tags)

lemma strip_tags_inside:
  "CHR ''>'' \<notin> set t \<Longrightarrow> strip_tags True (t @ CHR ''>'' # q) = strip_tags False q"
  by (induction t) auto

lemma strip_tags_before:
  "CHR ''<'' \<notin> set p \<Longrightarrow> strip_tags False (p @ r) = p @ strip_tags False r"
  by (induction p) auto

lemma bleach_clean_tag:
  "CHR ''<'' \<notin> set p \<Longrightarrow> CHR ''>'' \<notin> set t \<Longrightarrow>
   bleach_clean (p @ CHR ''<'' # t @ CHR ''>'' # q) = p @ bleach_clean q"
  by (simp add: bleach_clean_def strip_tags_before strip_tags_inside)

text \<open>
  Whatever the cleaning function is, if cleaning twice is cleaning once, then
  validating twice is validating once.
\<close>

lemma validate_json_input_idem:
  assumes idem: "\<And>s. clean (clean s) = clean s"
  shows "validate_json_input clean (validate_json_input clean v) = validate_json_input clean v"
  using idem
proof (induction clean v rule: validate_json_input.induct)
  case (1 clean kvs)
  let ?item = "\<lambda>item. case item of
       JStr s \<Rightarrow> sanitize_input clean item
     | JDict d \<Rightarrow> validate_json_input clean item
     | _ \<Rightarrow> item"
  let ?entry = "\<lambda>value. case value of
       JStr s \<Rightarrow> sanitize_input clean value
     | JDict d \<Rightarrow> validate_json_input clean value
     | JList items \<Rightarrow> JList (map ?item items)
     | _ \<Rightarrow> value"
  have item: "?item (?item x) = ?item x"
    if "(k, JList xs) \<in> set kvs" and "x \<in> set xs" for k xs x
  proof (cases x)
    case (JStr s)
    then show ?thesis using "1.prems" by (simp add: sanitize_input_def)
  next
    case (JDict d)
    then have "validate_json_input clean (validate_json_input clean x) = validate_json_input clean x"
      using "1.IH"(1) that "1.prems" by blast
    then show ?thesis using JDict by simp
  qed simp_all
  have entry: "?entry (?entry v) = ?entry v" if "(k, v) \<in> set kvs" for k v
  proof (cases v)
    case (JStr s)
    then show ?thesis using "1.prems" by (simp add: sanitize_input_def)
  next
    case (JList xs)
    then show ?thesis using item that by (simp add: o_def cong: map_cong)
  next
    case (JDict d)
    then have "validate_json_input clean (validate_json_input clean v) = validate_json_input clean v"
      using "1.IH"(2) that "1.prems" by blast
    then show ?thesis using JDict by simp
  qed simp_all
  have "map (\<lambda>(key, value). (key, ?entry value)) (map (\<lambda>(key, value). (key, ?entry value)) kvs)
        = map (\<lambda>(key, value). (key, ?entry value)) kvs"
    using entry by (auto simp: o_def)
  then show ?case by simp
qed simp_all

lemma validate_json_input_keys:
  "\<exists>kvs'. validate_json_input clean (JDict kvs) = JDict kvs' \<and> map fst kvs' = map fst kvs \<and>
     map snd kvs' = map (\<lambda>value. case value of
          JStr s \<Rightarrow> JStr (clean s)
        | JDict d \<Rightarrow> validate_json_input clean (JDict d)
        | JList items \<Rightarrow>
            JList (map (\<lambda>item. case item of
                 JStr s \<Rightarrow> JStr (clean s)
               | JDict d \<Rightarrow> validate_json_input clean (JDict d)
               | _ \<Rightarrow> item) items)
        | _ \<Rightarrow> value) (map snd kvs)"
  by (auto simp: sanitize_input_def o_def split: json.splits prod.splits cong: map_cong)

lemma carries_after_update:
  "carries_security_headers rid
     (ResponseStart sc (dict_update (dict_update [] hs) (security_headers rid)))"
  by (simp add: carries_security_headers_def dict_update_def security_headers_def update_conv')

lemma str_in_sublist: "str_in a b = sublist a b"
  by (induction b) (simp_all add: sublist_Cons_right)

lemma str_in_iff: "str_in a b = (\<exists>p q. b = p @ a @ q)"
  by (simp add: str_in_sublist sublist_def)

lemma field_errors_map:
  "field_errors errs acc =
     acc @ map (\<lambda>e. JDict [(''field'', JStr (join ''.'' (map str_loc (loc e)))),
                           (''message'', JStr (msg e)),
                           (''type'', JStr (type e))]) errs"
  by (induction errs arbitrary: acc) simp_all

text \<open>
  The handler that the module defines for its business logic exception answers with
  status 400 and the error code and message of the exception.
\<close>

lemma business_logic_error_handler_response:
  "fst (business_logic_error_handler ih m c w) =
     JSONResponse ih 400
       (JDict [(''error'', JStr ''BUSINESS_LOGIC_ERROR''),
               (''error_code'', opt_str c),
               (''detail'', JStr m),
               (''request_id'', opt_str (state_request_id w))])"
  by (simp add: business_logic_error_handler_def Let_def)

text \<open>
  Two facts about the reading of \<^verbatim>\<open>int\<close>: the separator characters are not white
  space for it, the next-line character and the no-break space are; and a literal
  of more than 4300 digits is refused.
\<close>

lemma py_int_separators:
  "py_int [CHR 0x1F, CHR ''9'', CHR ''9'', CHR 0x1C] = None
   \<and> py_int [CHR 0x85, CHR ''9'', CHR ''9'', CHR 0xA0] = Some 99"
  by (simp add: string_defs)

lemma filter_digit_dropWhile_space: "filter is_digit (dropWhile is_space s) = filter is_digit s"
  by (induction s) (auto simp: is_digit_def is_space_def)

lemma filter_digit_strip: "filter is_digit (strip s) = filter is_digit s"
  by (simp add: strip_def filter_digit_dropWhile_space rev_filter [symmetric] del: rev_filter)

lemma py_digits_limit: "length (filter is_digit s) > 4300 \<Longrightarrow> py_digits s = None"
  by (auto simp: py_digits_def max_str_digits_def split: list.splits option.splits)

lemma py_int_digit_limit: "length (filter is_digit s) > 4300 \<Longrightarrow> py_int s = None"
proof -
  assume a: "length (filter is_digit s) > 4300"
  then have b: "length (filter is_digit (strip s)) > 4300" by (simp add: filter_digit_strip)
  show ?thesis
  proof (cases "strip s")
    case Nil
    then show ?thesis by (simp add: py_int_def)
  next
    case (Cons c cs)
    have whole: "py_digits (c # cs) = None" using b Cons by (simp add: py_digits_limit)
    have rest: "\<not> is_digit c \<Longrightarrow> py_digits cs = None"
      using b Cons by (simp add: py_digits_limit)
    have sign: "c = CHR ''-'' \<or> c = CHR ''+'' \<Longrightarrow> \<not> is_digit c"
      by (auto simp: is_digit_def)
    show ?thesis using Cons whole rest sign by (auto simp: py_int_def)
  qed
qed

subsection \<open>The sanitizer\<close>

text \<open>
  Claim C8, amended. \<^verbatim>\<open>sanitize_input\<close> applied to a string returns the string that the
  cleaning function makes of it; with the cleaning function that strips tags the
  result holds no complete tag, and a tag is removed while the text before it and the
  text between tags stays, so that \<^verbatim>\<open><script>alert(1)</script>hello\<close> becomes
  \<^verbatim>\<open>alert(1)hello\<close>. \<^verbatim>\<open>validate_json_input\<close> applied to a mapping keeps the keys and their
  order, cleans string values, recurses into mapping values, cleans the string
  elements and recurses into the mapping elements of list values, and leaves every
  other value and every other list element as it is; the nested example mapping
  becomes \<^verbatim>\<open>{"a": "x", "c": {"d": "y"}}\<close>. \<^verbatim>\<open>sanitize_input\<close> returns what is not a
  string unchanged and \<^verbatim>\<open>validate_json_input\<close> returns what is not a mapping unchanged.
\<close>

theorem sanitize_strips_tags_and_recurses:
  "sanitize_input clean (JStr s) = JStr (clean s)
   \<and> no_tag (bleach_clean s)
   \<and> (CHR ''<'' \<notin> set p \<and> CHR ''>'' \<notin> set t \<longrightarrow>
        bleach_clean (p @ CHR ''<'' # t @ CHR ''>'' # q) = p @ bleach_clean q)
   \<and> sanitize_input bleach_clean (JStr ''<script>alert(1)</script>hello'') = JStr ''alert(1)hello''
   \<and> validate_json_input bleach_clean
         (JDict [(''a'', JStr ''<b>x</b>''), (''c'', JDict [(''d'', JStr ''<i>y</i>'')])])
       = JDict [(''a'', JStr ''x''), (''c'', JDict [(''d'', JStr ''y'')])]
   \<and> (\<exists>kvs'. validate_json_input clean (JDict kvs) = JDict kvs' \<and>
          map fst kvs' = map fst kvs \<and>
          map snd kvs' = map (\<lambda>value. case value of
              JStr s \<Rightarrow> JStr (clean s)
            | JDict d \<Rightarrow> validate_json_input clean (JDict d)
            | JList items \<Rightarrow>
                JList (map (\<lambda>item. case item of
                     JStr s \<Rightarrow> JStr (clean s)
                   | JDict d \<Rightarrow> validate_json_input clean (JDict d)
                   | _ \<Rightarrow> item) items)
            | _ \<Rightarrow> value) (map snd kvs))
   \<and> ((\<forall>x. v \<noteq> JStr x) \<longrightarrow> sanitize_input clean v = v)
   \<and> ((\<forall>d. v \<noteq> JDict d) \<longrightarrow> validate_json_input clean v = v)"
proof -
  have a: "sanitize_input clean (JStr s) = JStr (clean s)"
    by (simp add: sanitize_input_def)
  have b: "no_tag (bleach_clean s)"
    by (simp add: bleach_clean_def no_tag_strip_tags)
  have c: "CHR ''<'' \<notin> set p \<and> CHR ''>'' \<notin> set t \<longrightarrow>
        bleach_clean (p @ CHR ''<'' # t @ CHR ''>'' # q) = p @ bleach_clean q"
    by (simp add: bleach_clean_tag)
  have e: "sanitize_input bleach_clean (JStr ''<script>alert(1)</script>hello'') = JStr ''alert(1)hello''"
    by (simp add: sanitize_input_def bleach_clean_def)
  have f: "validate_json_input bleach_clean
         (JDict [(''a'', JStr ''<b>x</b>''), (''c'', JDict [(''d'', JStr ''<i>y</i>'')])])
       = JDict [(''a'', JStr ''x''), (''c'', JDict [(''d'', JStr ''y'')])]"
    by (simp add: sanitize_input_def bleach_clean_def)
  have g: "(\<forall>x. v \<noteq> JStr x) \<longrightarrow> sanitize_input clean v = v"
    by (cases v) (simp_all add: sanitize_input_def)
  have h: "(\<forall>d. v \<noteq> JDict d) \<longrightarrow> validate_json_input clean v = v"
    by (cases v) simp_all
  from a b c e f validate_json_input_keys [of clean kvs] g h show ?thesis
    by (intro conjI)
qed

theorem sanitize_strips_tags_and_recurses_witness:
  "CHR ''<'' \<notin> set ''a '' \<and> CHR ''>'' \<notin> set ''br/''
   \<and> bleach_clean (''a '' @ CHR ''<'' # ''br/'' @ CHR ''>'' # ''b'') = ''a '' @ bleach_clean ''b''
   \<and> no_tag (bleach_clean ''<<b>a</b> > c'')
   \<and> (\<forall>x. JInt 7 \<noteq> JStr x) \<and> sanitize_input bleach_clean (JInt 7) = JInt 7
   \<and> (\<forall>d. JInt 7 \<noteq> JDict d) \<and> validate_json_input bleach_clean (JInt 7) = JInt 7"
  using sanitize_strips_tags_and_recurses
    [where s = "''<<b>a</b> > c''" and p = "''a ''" and t = "''br/''" and q = "''b''"
       and clean = bleach_clean and v = "JInt 7" and kvs = "[]"]
  by simp

text \<open>
  The string example of claim C8 as the claim has it: the text inside the
  \<^verbatim>\<open>script\<close> element is text content and stays.
\<close>

theorem sanitize_script_example_keeps_text:
  "sanitize_input bleach_clean (JStr ''<script>alert(1)</script>hello'') \<noteq> JStr ''hello''"
  by (simp add: sanitize_input_def bleach_clean_def)

text \<open>
  Claim C9. Sanitizing is idempotent: for every value, a string, a mapping or a list,
  nested to any depth, each of the two functions applied to its own result returns
  that result.
\<close>

theorem sanitize_idempotent:
  "sanitize_input bleach_clean (sanitize_input bleach_clean v) = sanitize_input bleach_clean v
   \<and> validate_json_input bleach_clean (validate_json_input bleach_clean v)
       = validate_json_input bleach_clean v"
proof
  show "sanitize_input bleach_clean (sanitize_input bleach_clean v) = sanitize_input bleach_clean v"
    by (cases v) (simp_all add: sanitize_input_def bleach_clean_idem)
  show "validate_json_input bleach_clean (validate_json_input bleach_clean v)
       = validate_json_input bleach_clean v"
    by (rule validate_json_input_idem) (rule bleach_clean_idem)
qed

subsection \<open>Security headers\<close>

text \<open>
  Claim C1, amended. For every HTTP request that passes the host check and the size
  check of the security middleware, the response that a route returns reaches the
  client with the five fixed security headers and with an \<^verbatim>\<open>x-request-id\<close> header
  equal to the identifier generated for the request; every start message that
  passes the wrapper of the security middleware gets these six headers.
\<close>

theorem security_headers_on_responses_through_gate:
  assumes "scope_type sc = Http"
    and "validate_host (SecurityMiddleware_init hosts (10 * 1024 * 1024)) sc"
    and "too_large (SecurityMiddleware_init hosts (10 * 1024 * 1024))
           (headers_get (headers sc) ''content-length'') = Inr False"
    and "route sc (Some rid) = Returns r"
  shows "wire (snd (app ih hosts rid route sc server_send w)) =
           wire w @ [ResponseStart (status_code r)
                       (dict_update (dict_update [] (raw_headers r)) (security_headers rid)),
                     body_message r]
       \<and> carries_security_headers rid
           (ResponseStart (status_code r)
              (dict_update (dict_update [] (raw_headers r)) (security_headers rid)))
       \<and> (\<exists>hs'. security_send_wrapper server_send rid (ResponseStart code hdrs) w
                      = w\<lparr>wire := wire w @ [ResponseStart code hs']\<rparr>
                 \<and> carries_security_headers rid (ResponseStart code hs'))"
proof (intro conjI)
  from assms
  show "wire (snd (app ih hosts rid route sc server_send w)) =
           wire w @ [ResponseStart (status_code r)
                       (dict_update (dict_update [] (raw_headers r)) (security_headers rid)),
                     body_message r]"
    by (cases "content r") (simp_all add: pipeline_defs body_message_def)
  show "carries_security_headers rid
           (ResponseStart (status_code r)
              (dict_update (dict_update [] (raw_headers r)) (security_headers rid)))"
    by (rule carries_after_update)
  have "security_send_wrapper server_send rid (ResponseStart code hdrs) w
          = w\<lparr>wire := wire w @ [ResponseStart code
                 (dict_update (dict_update [] hdrs) (security_headers rid))]\<rparr>"
    by (simp add: security_send_wrapper_def server_send_def)
  then show "\<exists>hs'. security_send_wrapper server_send rid (ResponseStart code hdrs) w
                      = w\<lparr>wire := wire w @ [ResponseStart code hs']\<rparr>
                 \<and> carries_security_headers rid (ResponseStart code hs')"
    using carries_after_update by blast
qed

theorem security_headers_on_responses_through_gate_witness:
  "scope_type (example_scope [(''host'', ''api.example.com'')]) = Http
   \<and> validate_host (SecurityMiddleware_init (Some [''example.com'']) (10 * 1024 * 1024))
        (example_scope [(''host'', ''api.example.com'')])
   \<and> too_large (SecurityMiddleware_init (Some [''example.com'']) (10 * 1024 * 1024))
        (headers_get (headers (example_scope [(''host'', ''api.example.com'')])) ''content-length'')
        = Inr False
   \<and> wire (snd (app (\<lambda>c. json_headers ''15'') (Some [''example.com'']) example_uuid health_route
                  (example_scope [(''host'', ''api.example.com'')]) server_send fresh_world))
       = wire fresh_world @
         [ResponseStart 200
            (dict_update (dict_update [] (json_headers ''15'')) (security_headers example_uuid)),
          ResponseBody (JDict [(''status'', JStr ''ok'')])]"
proof -
  have h1: "scope_type (example_scope [(''host'', ''api.example.com'')]) = Http"
    by (simp add: example_defs)
  have h2: "validate_host (SecurityMiddleware_init (Some [''example.com'']) (10 * 1024 * 1024))
        (example_scope [(''host'', ''api.example.com'')])"
    by (simp add: example_defs string_defs)
  have h3: "too_large (SecurityMiddleware_init (Some [''example.com'']) (10 * 1024 * 1024))
        (headers_get (headers (example_scope [(''host'', ''api.example.com'')])) ''content-length'')
        = Inr False"
    by (simp add: example_defs string_defs)
  have h4: "health_route (example_scope [(''host'', ''api.example.com'')]) (Some example_uuid)
              = Returns \<lparr>status_code = 200, raw_headers = json_headers ''15'',
                         content = Some (JDict [(''status'', JStr ''ok'')])\<rparr>"
    by (simp add: health_route_def)
  from security_headers_on_responses_through_gate
      [where route = health_route and sc = "example_scope [(''host'', ''api.example.com'')]"
         and rid = example_uuid and hosts = "Some [''example.com'']"
         and ih = "\<lambda>c. json_headers ''15''" and w = fresh_world,
       OF h1 h2 h3 h4, THEN conjunct1]
  have g: "wire (snd (app (\<lambda>c. json_headers ''15'') (Some [''example.com'']) example_uuid health_route
                  (example_scope [(''host'', ''api.example.com'')]) server_send fresh_world))
       = wire fresh_world @
         [ResponseStart 200
            (dict_update (dict_update [] (json_headers ''15'')) (security_headers example_uuid)),
          ResponseBody (JDict [(''status'', JStr ''ok'')])]"
    by (simp add: body_message_def)
  from h1 h2 h3 g show ?thesis by (intro conjI)
qed

text \<open>
  Claim C1 as stated fails for a request with a host that is not allowed: the
  response of the security middleware itself is sent without the headers.
\<close>

theorem host_rejection_without_security_headers:
  "wire (snd (app (\<lambda>c. json_headers ''32'') (Some [''example.com'']) example_uuid health_route
               (example_scope [(''host'', ''evil.org'')]) server_send fresh_world))
     = [ResponseStart 400 (json_headers ''32''),
        ResponseBody (JDict [(''detail'', JStr ''Invalid host header'')])]
   \<and> \<not> carries_security_headers example_uuid (ResponseStart 400 (json_headers ''32''))"
  by (simp add: pipeline_defs example_defs string_defs carries_security_headers_def)

subsection \<open>Classification of exceptions\<close>

text \<open>
  Claim C2, evaluated on the code. The claim wants a business logic exception that
  leaves a route to be answered with status 400 and the error kind
  \<^verbatim>\<open>BUSINESS_LOGIC_ERROR\<close>. The handler that does so is never registered, so the exception
  reaches the error handler middleware and falls to its default branch. For every
  HTTP request that passes the security middleware and whose route raises a business
  logic exception: when the path of the URL can be read, the client gets status 500
  with the generic internal error body; when reading it raises, nothing is sent and
  that exception leaves the application.
\<close>

theorem business_logic_error_answered_as_internal_error:
  assumes "scope_type sc = Http"
    and "validate_host (SecurityMiddleware_init hosts (10 * 1024 * 1024)) sc"
    and "too_large (SecurityMiddleware_init hosts (10 * 1024 * 1024))
           (headers_get (headers sc) ''content-length'') = Inr False"
    and "route sc (Some rid) = Raises (BusinessLogicError m c)"
  shows "(url_path sc = Inr p \<longrightarrow>
            fst (app ih hosts rid route sc server_send w) = Inr ()
          \<and> wire (snd (app ih hosts rid route sc server_send w)) =
              wire w @
              [ResponseStart 500
                 (ih (JDict [(''error'', JStr ''INTERNAL_SERVER_ERROR''),
                             (''detail'', JStr ''An internal server error occurred''),
                             (''request_id'', JStr rid)])),
               ResponseBody
                 (JDict [(''error'', JStr ''INTERNAL_SERVER_ERROR''),
                         (''detail'', JStr ''An internal server error occurred''),
                         (''request_id'', JStr rid)])])
       \<and> (url_path sc = Inl u \<longrightarrow>
            fst (app ih hosts rid route sc server_send w) = Inl u
          \<and> wire (snd (app ih hosts rid route sc server_send w)) = wire w)"
  using assms by (simp add: pipeline_defs opt_str_def)

theorem business_logic_error_answered_as_internal_error_witness:
  "scope_type (example_scope [(''host'', ''api.example.com'')]) = Http
   \<and> validate_host (SecurityMiddleware_init None (10 * 1024 * 1024))
        (example_scope [(''host'', ''api.example.com'')])
   \<and> too_large (SecurityMiddleware_init None (10 * 1024 * 1024))
        (headers_get (headers (example_scope [(''host'', ''api.example.com'')])) ''content-length'')
        = Inr False
   \<and> url_path (example_scope [(''host'', ''api.example.com'')]) = Inr ''/api/v1/health''
   \<and> wire (snd (app (\<lambda>c. json_headers ''130'') None example_uuid
                  (\<lambda>request state. Raises (BusinessLogicError ''duplicate entry'' (Some ''DUP_001'')))
                  (example_scope [(''host'', ''api.example.com'')]) server_send fresh_world)) =
         wire fresh_world @
         [ResponseStart 500 (json_headers ''130''),
          ResponseBody
            (JDict [(''error'', JStr ''INTERNAL_SERVER_ERROR''),
                    (''detail'', JStr ''An internal server error occurred''),
                    (''request_id'', JStr example_uuid)])]"
proof -
  have h1: "scope_type (example_scope [(''host'', ''api.example.com'')]) = Http"
    by (simp add: example_defs)
  have h2: "validate_host (SecurityMiddleware_init None (10 * 1024 * 1024))
        (example_scope [(''host'', ''api.example.com'')])"
    by (simp add: example_defs)
  have h3: "too_large (SecurityMiddleware_init None (10 * 1024 * 1024))
        (headers_get (headers (example_scope [(''host'', ''api.example.com'')])) ''content-length'')
        = Inr False"
    by (simp add: example_defs string_defs)
  have h4: "(\<lambda>request state. Raises (BusinessLogicError ''duplicate entry'' (Some ''DUP_001'')))
              (example_scope [(''host'', ''api.example.com'')]) (Some example_uuid)
            = Raises (BusinessLogicError ''duplicate entry'' (Some ''DUP_001''))"
    by simp
  have h5: "url_path (example_scope [(''host'', ''api.example.com'')]) = Inr ''/api/v1/health''"
    by (simp add: example_defs)
  from h5
    business_logic_error_answered_as_internal_error
      [where route = "\<lambda>request state. Raises (BusinessLogicError ''duplicate entry'' (Some ''DUP_001''))"
         and sc = "example_scope [(''host'', ''api.example.com'')]"
         and rid = example_uuid and hosts = None and p = "''/api/v1/health''"
         and ih = "\<lambda>c. json_headers ''130''" and w = fresh_world,
       OF h1 h2 h3 h4, THEN conjunct1]
  have g: "wire (snd (app (\<lambda>c. json_headers ''130'') None example_uuid
                  (\<lambda>request state. Raises (BusinessLogicError ''duplicate entry'' (Some ''DUP_001'')))
                  (example_scope [(''host'', ''api.example.com'')]) server_send fresh_world)) =
         wire fresh_world @
         [ResponseStart 500 (json_headers ''130''),
          ResponseBody
            (JDict [(''error'', JStr ''INTERNAL_SERVER_ERROR''),
                    (''detail'', JStr ''An internal server error occurred''),
                    (''request_id'', JStr example_uuid)])]"
    by blast
  from h1 h2 h3 h5 g show ?thesis by (intro conjI)
qed

text \<open>
  Claim C3, evaluated on the code. The claim wants every exception that is not an
  HTTP exception of the framework, not a validation failure of either kind and not
  one of the three exceptions of the module to be answered with status 500, the
  error kind \<^verbatim>\<open>INTERNAL_SERVER_ERROR\<close> and a fixed detail, the same for any two such
  exceptions on the same request. For an HTTP request that passes the security
  middleware and whose route raises such an exception the code does so when the
  path of the URL can be read: the client gets that response, the same for both
  exceptions, and the class name, message and traceback of the exception are in
  the log event only. When reading the path raises (as for the \<^verbatim>\<open>Host\<close> header
  \<^verbatim>\<open>[\<close>), the handler fails before it logs or answers: nothing is sent, and the
  exception of the URL parser leaves the application.
\<close>

theorem unclassified_fault_generic_response:
  assumes "unclassified e" and "unclassified e'"
    and "scope_type sc = Http"
    and "validate_host (SecurityMiddleware_init hosts (10 * 1024 * 1024)) sc"
    and "too_large (SecurityMiddleware_init hosts (10 * 1024 * 1024))
           (headers_get (headers sc) ''content-length'') = Inr False"
    and "route sc (Some rid) = Raises e" and "route' sc (Some rid) = Raises e'"
  shows "(url_path sc = Inr p \<longrightarrow>
            fst (app ih hosts rid route sc server_send w) = Inr ()
          \<and> wire (snd (app ih hosts rid route sc server_send w)) =
              wire w @
              [ResponseStart 500
                 (ih (JDict [(''error'', JStr ''INTERNAL_SERVER_ERROR''),
                             (''detail'', JStr ''An internal server error occurred''),
                             (''request_id'', JStr rid)])),
               ResponseBody
                 (JDict [(''error'', JStr ''INTERNAL_SERVER_ERROR''),
                         (''detail'', JStr ''An internal server error occurred''),
                         (''request_id'', JStr rid)])]
          \<and> wire (snd (app ih hosts rid route' sc server_send w))
              = wire (snd (app ih hosts rid route sc server_send w))
          \<and> logs (snd (app ih hosts rid route sc server_send w)) =
              logs w @
              [(Info, ''Incoming request'',
                [(''method'', LJson (JStr (http_method sc))),
                 (''url'', LJson (JStr (url sc))),
                 (''user_agent'', LJson (opt_str (headers_get (headers sc) ''user-agent''))),
                 (''request_id'', LJson (opt_str (state_request_id w)))]),
               (Error, ''Internal server error'',
                [(''error_type'', LTypeName e),
                 (''error_message'', LMessage e),
                 (''traceback'', LTraceback e),
                 (''request_id'', LJson (JStr rid)),
                 (''path'', LJson (JStr p)),
                 (''method'', LJson (JStr (http_method sc)))])])
       \<and> (url_path sc = Inl u \<longrightarrow>
            fst (app ih hosts rid route sc server_send w) = Inl u
          \<and> wire (snd (app ih hosts rid route sc server_send w)) = wire w)"
proof -
  have through: "(url_path sc = Inr p \<longrightarrow>
            fst (app ih hosts rid r sc server_send w) = Inr ()
          \<and> wire (snd (app ih hosts rid r sc server_send w)) =
              wire w @
              [ResponseStart 500
                 (ih (JDict [(''error'', JStr ''INTERNAL_SERVER_ERROR''),
                             (''detail'', JStr ''An internal server error occurred''),
                             (''request_id'', JStr rid)])),
               ResponseBody
                 (JDict [(''error'', JStr ''INTERNAL_SERVER_ERROR''),
                         (''detail'', JStr ''An internal server error occurred''),
                         (''request_id'', JStr rid)])]
          \<and> logs (snd (app ih hosts rid r sc server_send w)) =
              logs w @
              [(Info, ''Incoming request'',
                [(''method'', LJson (JStr (http_method sc))),
                 (''url'', LJson (JStr (url sc))),
                 (''user_agent'', LJson (opt_str (headers_get (headers sc) ''user-agent''))),
                 (''request_id'', LJson (opt_str (state_request_id w)))]),
               (Error, ''Internal server error'',
                [(''error_type'', LTypeName x),
                 (''error_message'', LMessage x),
                 (''traceback'', LTraceback x),
                 (''request_id'', LJson (JStr rid)),
                 (''path'', LJson (JStr p)),
                 (''method'', LJson (JStr (http_method sc)))])])
       \<and> (url_path sc = Inl u \<longrightarrow>
            fst (app ih hosts rid r sc server_send w) = Inl u
          \<and> wire (snd (app ih hosts rid r sc server_send w)) = wire w)"
    if "unclassified x" and "r sc (Some rid) = Raises x" for r x
    using that assms(3-5)
    by (cases x) (simp_all add: unclassified_def pipeline_defs opt_str_def)
  show ?thesis
    using through [of e route, OF assms(1) assms(6)] through [of e' route', OF assms(2) assms(7)]
    by simp
qed

theorem unclassified_fault_generic_response_witness:
  "unclassified (OtherException ''RuntimeError'' ''pool exhausted'')
   \<and> unclassified (OtherException ''KeyError'' ''secret_key'')
   \<and> scope_type bracket_scope = Http
   \<and> validate_host (SecurityMiddleware_init None (10 * 1024 * 1024)) bracket_scope
   \<and> too_large (SecurityMiddleware_init None (10 * 1024 * 1024))
        (headers_get (headers bracket_scope) ''content-length'') = Inr False
   \<and> url_path bracket_scope = Inl (OtherException ''ValueError'' ''Invalid IPv6 URL'')
   \<and> fst (app (\<lambda>c. json_headers ''130'') None example_uuid
             (\<lambda>request state. Raises (OtherException ''RuntimeError'' ''pool exhausted''))
             bracket_scope server_send fresh_world)
       = Inl (OtherException ''ValueError'' ''Invalid IPv6 URL'')
   \<and> wire (snd (app (\<lambda>c. json_headers ''130'') None example_uuid
                  (\<lambda>request state. Raises (OtherException ''RuntimeError'' ''pool exhausted''))
                  bracket_scope server_send fresh_world)) = wire fresh_world
   \<and> url_path (example_scope [(''host'', ''api.example.com'')]) = Inr ''/api/v1/health''
   \<and> wire (snd (app (\<lambda>c. json_headers ''130'') None example_uuid
                  (\<lambda>request state. Raises (OtherException ''KeyError'' ''secret_key''))
                  (example_scope [(''host'', ''api.example.com'')]) server_send fresh_world))
       = wire (snd (app (\<lambda>c. json_headers ''130'') None example_uuid
                  (\<lambda>request state. Raises (OtherException ''RuntimeError'' ''pool exhausted''))
                  (example_scope [(''host'', ''api.example.com'')]) server_send fresh_world))"
proof -
  have u1: "unclassified (OtherException ''RuntimeError'' ''pool exhausted'')"
    by (simp add: unclassified_def)
  have u2: "unclassified (OtherException ''KeyError'' ''secret_key'')"
    by (simp add: unclassified_def)
  have b1: "scope_type bracket_scope = Http"
    by (simp add: example_defs)
  have b2: "validate_host (SecurityMiddleware_init None (10 * 1024 * 1024)) bracket_scope"
    by (simp add: example_defs)
  have b3: "too_large (SecurityMiddleware_init None (10 * 1024 * 1024))
        (headers_get (headers bracket_scope) ''content-length'') = Inr False"
    by (simp add: example_defs string_defs)
  have b4: "url_path bracket_scope = Inl (OtherException ''ValueError'' ''Invalid IPv6 URL'')"
    by (simp add: example_defs)
  have r1: "(\<lambda>request state. Raises (OtherException ''RuntimeError'' ''pool exhausted''))
              s (Some example_uuid)
            = Raises (OtherException ''RuntimeError'' ''pool exhausted'')" for s :: scope
    by simp
  have r2: "(\<lambda>request state. Raises (OtherException ''KeyError'' ''secret_key''))
              s (Some example_uuid)
            = Raises (OtherException ''KeyError'' ''secret_key'')" for s :: scope
    by simp
  have e1: "scope_type (example_scope [(''host'', ''api.example.com'')]) = Http"
    by (simp add: example_defs)
  have e2: "validate_host (SecurityMiddleware_init None (10 * 1024 * 1024))
        (example_scope [(''host'', ''api.example.com'')])"
    by (simp add: example_defs)
  have e3: "too_large (SecurityMiddleware_init None (10 * 1024 * 1024))
        (headers_get (headers (example_scope [(''host'', ''api.example.com'')])) ''content-length'')
        = Inr False"
    by (simp add: example_defs string_defs)
  have e4: "url_path (example_scope [(''host'', ''api.example.com'')]) = Inr ''/api/v1/health''"
    by (simp add: example_defs)
  note t = unclassified_fault_generic_response
  from b4
    t [where e = "OtherException ''RuntimeError'' ''pool exhausted''"
         and e' = "OtherException ''KeyError'' ''secret_key''"
         and route = "\<lambda>request state. Raises (OtherException ''RuntimeError'' ''pool exhausted'')"
         and route' = "\<lambda>request state. Raises (OtherException ''KeyError'' ''secret_key'')"
         and sc = bracket_scope and hosts = None and rid = example_uuid
         and u = "OtherException ''ValueError'' ''Invalid IPv6 URL''"
         and ih = "\<lambda>c. json_headers ''130''" and w = fresh_world,
       OF u1 u2 b1 b2 b3 r1 r2, THEN conjunct2]
  have g1: "fst (app (\<lambda>c. json_headers ''130'') None example_uuid
             (\<lambda>request state. Raises (OtherException ''RuntimeError'' ''pool exhausted''))
             bracket_scope server_send fresh_world)
       = Inl (OtherException ''ValueError'' ''Invalid IPv6 URL'')
   \<and> wire (snd (app (\<lambda>c. json_headers ''130'') None example_uuid
                  (\<lambda>request state. Raises (OtherException ''RuntimeError'' ''pool exhausted''))
                  bracket_scope server_send fresh_world)) = wire fresh_world"
    by blast
  from e4
    t [where e = "OtherException ''RuntimeError'' ''pool exhausted''"
         and e' = "OtherException ''KeyError'' ''secret_key''"
         and route = "\<lambda>request state. Raises (OtherException ''RuntimeError'' ''pool exhausted'')"
         and route' = "\<lambda>request state. Raises (OtherException ''KeyError'' ''secret_key'')"
         and sc = "example_scope [(''host'', ''api.example.com'')]" and hosts = None
         and rid = example_uuid and p = "''/api/v1/health''"
         and ih = "\<lambda>c. json_headers ''130''" and w = fresh_world,
       OF u1 u2 e1 e2 e3 r1 r2, THEN conjunct1]
  have g2: "wire (snd (app (\<lambda>c. json_headers ''130'') None example_uuid
                  (\<lambda>request state. Raises (OtherException ''KeyError'' ''secret_key''))
                  (example_scope [(''host'', ''api.example.com'')]) server_send fresh_world))
       = wire (snd (app (\<lambda>c. json_headers ''130'') None example_uuid
                  (\<lambda>request state. Raises (OtherException ''RuntimeError'' ''pool exhausted''))
                  (example_scope [(''host'', ''api.example.com'')]) server_send fresh_world))"
    by blast
  from u1 u2 b1 b2 b3 b4 g1 e4 g2 show ?thesis by (intro conjI) blast+
qed

text \<open>
  Claim C7, evaluated on the code. The claim wants a request validation failure to
  be answered with status 422, the error kind \<^verbatim>\<open>VALIDATION_ERROR\<close> and the detail
  \<^verbatim>\<open>Request validation failed\<close>, and a data model validation failure with the same
  status and kind and the detail \<^verbatim>\<open>Data validation failed\<close>, both with one entry in
  \<^verbatim>\<open>errors\<close> for each reported failure, in the reported order, the entry holding the
  location path joined with dots, the message and the type tag. For an HTTP request
  that passes the security middleware: a request validation error raised by a
  route is answered by the handler of the framework, inside the middleware, with
  status 422 and a body that has the key \<^verbatim>\<open>detail\<close> only, so the branch of the error
  handler for it is not reached; a data model validation error raised by a route
  is answered as the claim says when the path of the URL can be read. The error
  handler middleware answers a request validation error as the claim says if one
  leaves the application it wraps. The list of entries is as the claim says.
\<close>

theorem validation_error_responses:
  assumes "scope_type sc = Http"
    and "validate_host (SecurityMiddleware_init hosts (10 * 1024 * 1024)) sc"
    and "too_large (SecurityMiddleware_init hosts (10 * 1024 * 1024))
           (headers_get (headers sc) ''content-length'') = Inr False"
  shows "(route sc (Some rid) = Raises (RequestValidationError errs) \<longrightarrow>
            wire (snd (app ih hosts rid route sc server_send w)) =
              wire w @
              [ResponseStart 422
                 (dict_update
                    (dict_update [] (ih (JDict [(''detail'', JList (map json_error errs))])))
                    (security_headers rid)),
               ResponseBody (JDict [(''detail'', JList (map json_error errs))])]
          \<and> json_field (JDict [(''detail'', JList (map json_error errs))]) ''error'' = None)
       \<and> (route sc (Some rid) = Raises (ValidationError errs) \<and> url_path sc = Inr p \<longrightarrow>
            wire (snd (app ih hosts rid route sc server_send w)) =
              wire w @
              [ResponseStart 422
                 (ih (JDict [(''error'', JStr ''VALIDATION_ERROR''),
                             (''detail'', JStr ''Data validation failed''),
                             (''errors'', JList (field_errors errs [])),
                             (''request_id'', JStr rid)])),
               ResponseBody
                 (JDict [(''error'', JStr ''VALIDATION_ERROR''),
                         (''detail'', JStr ''Data validation failed''),
                         (''errors'', JList (field_errors errs [])),
                         (''request_id'', JStr rid)])])
       \<and> (inner sc server_send w = (Inl (RequestValidationError errs), w') \<and> url_path sc = Inr p \<longrightarrow>
            wire (snd (ErrorHandlerMiddleware_call ih inner sc server_send w)) =
              wire w' @
              [ResponseStart 422
                 (ih (JDict [(''error'', JStr ''VALIDATION_ERROR''),
                             (''detail'', JStr ''Request validation failed''),
                             (''errors'', JList (field_errors errs [])),
                             (''request_id'', opt_str (state_request_id w'))])),
               ResponseBody
                 (JDict [(''error'', JStr ''VALIDATION_ERROR''),
                         (''detail'', JStr ''Request validation failed''),
                         (''errors'', JList (field_errors errs [])),
                         (''request_id'', opt_str (state_request_id w'))])])
       \<and> length (field_errors errs []) = length errs
       \<and> (\<forall>i < length errs.
            field_errors errs [] ! i =
              JDict [(''field'', JStr (join ''.'' (map str_loc (loc (errs ! i))))),
                     (''message'', JStr (msg (errs ! i))),
                     (''type'', JStr (type (errs ! i)))])"
proof (intro conjI)
  show "route sc (Some rid) = Raises (RequestValidationError errs) \<longrightarrow>
            wire (snd (app ih hosts rid route sc server_send w)) =
              wire w @
              [ResponseStart 422
                 (dict_update
                    (dict_update [] (ih (JDict [(''detail'', JList (map json_error errs))])))
                    (security_headers rid)),
               ResponseBody (JDict [(''detail'', JList (map json_error errs))])]
          \<and> json_field (JDict [(''detail'', JList (map json_error errs))]) ''error'' = None"
    using assms
    by (simp add: pipeline_defs request_validation_exception_handler_def json_field_def)
  show "route sc (Some rid) = Raises (ValidationError errs) \<and> url_path sc = Inr p \<longrightarrow>
            wire (snd (app ih hosts rid route sc server_send w)) =
              wire w @
              [ResponseStart 422
                 (ih (JDict [(''error'', JStr ''VALIDATION_ERROR''),
                             (''detail'', JStr ''Data validation failed''),
                             (''errors'', JList (field_errors errs [])),
                             (''request_id'', JStr rid)])),
               ResponseBody
                 (JDict [(''error'', JStr ''VALIDATION_ERROR''),
                         (''detail'', JStr ''Data validation failed''),
                         (''errors'', JList (field_errors errs [])),
                         (''request_id'', JStr rid)])]"
    using assms
    by (simp add: pipeline_defs handle_pydantic_validation_error_def opt_str_def)
  show "inner sc server_send w = (Inl (RequestValidationError errs), w') \<and> url_path sc = Inr p \<longrightarrow>
            wire (snd (ErrorHandlerMiddleware_call ih inner sc server_send w)) =
              wire w' @
              [ResponseStart 422
                 (ih (JDict [(''error'', JStr ''VALIDATION_ERROR''),
                             (''detail'', JStr ''Request validation failed''),
                             (''errors'', JList (field_errors errs [])),
                             (''request_id'', opt_str (state_request_id w'))])),
               ResponseBody
                 (JDict [(''error'', JStr ''VALIDATION_ERROR''),
                         (''detail'', JStr ''Request validation failed''),
                         (''errors'', JList (field_errors errs [])),
                         (''request_id'', opt_str (state_request_id w'))])]"
    using assms(1)
    by (simp add: pipeline_defs handle_validation_error_def)
  show "length (field_errors errs []) = length errs"
    by (simp add: field_errors_map)
  show "\<forall>i < length errs.
            field_errors errs [] ! i =
              JDict [(''field'', JStr (join ''.'' (map str_loc (loc (errs ! i))))),
                     (''message'', JStr (msg (errs ! i))),
                     (''type'', JStr (type (errs ! i)))]"
    by (simp add: field_errors_map)
qed

theorem validation_error_responses_witness:
  "scope_type (example_scope [(''host'', ''api.example.com'')]) = Http
   \<and> validate_host (SecurityMiddleware_init None (10 * 1024 * 1024))
        (example_scope [(''host'', ''api.example.com'')])
   \<and> too_large (SecurityMiddleware_init None (10 * 1024 * 1024))
        (headers_get (headers (example_scope [(''host'', ''api.example.com'')])) ''content-length'')
        = Inr False
   \<and> wire (snd (app (\<lambda>c. json_headers ''89'') None example_uuid
                  (\<lambda>request state. Raises (RequestValidationError
                     [\<lparr>loc = [LocStr ''body'', LocStr ''email''], msg = ''field required'',
                       type = ''value_error.missing'', other_keys = []\<rparr>]))
                  (example_scope [(''host'', ''api.example.com'')]) server_send fresh_world)) =
       wire fresh_world @
       [ResponseStart 422
          (dict_update (dict_update [] (json_headers ''89'')) (security_headers example_uuid)),
        ResponseBody
          (JDict [(''detail'',
             JList [JDict [(''loc'', JList [JStr ''body'', JStr ''email'']),
                           (''msg'', JStr ''field required''),
                           (''type'', JStr ''value_error.missing'')]])])]
   \<and> (0::nat) < length [\<lparr>loc = [LocStr ''body'', LocStr ''items'', LocInt 3],
                          msg = ''value is not a valid integer'',
                          type = ''type_error.integer'', other_keys = []\<rparr>]
   \<and> field_errors [\<lparr>loc = [LocStr ''body'', LocStr ''items'', LocInt 3],
                      msg = ''value is not a valid integer'',
                      type = ''type_error.integer'', other_keys = []\<rparr>] [] ! 0 =
       JDict [(''field'', JStr ''body.items.3''),
              (''message'', JStr ''value is not a valid integer''),
              (''type'', JStr ''type_error.integer'')]"
proof -
  have h1: "scope_type (example_scope [(''host'', ''api.example.com'')]) = Http"
    by (simp add: example_defs)
  have h2: "validate_host (SecurityMiddleware_init None (10 * 1024 * 1024))
        (example_scope [(''host'', ''api.example.com'')])"
    by (simp add: example_defs)
  have h3: "too_large (SecurityMiddleware_init None (10 * 1024 * 1024))
        (headers_get (headers (example_scope [(''host'', ''api.example.com'')])) ''content-length'')
        = Inr False"
    by (simp add: example_defs string_defs)
  note t = validation_error_responses
  from t [where route = "\<lambda>request state. Raises (RequestValidationError
                     [\<lparr>loc = [LocStr ''body'', LocStr ''email''], msg = ''field required'',
                       type = ''value_error.missing'', other_keys = []\<rparr>])"
            and errs = "[\<lparr>loc = [LocStr ''body'', LocStr ''email''], msg = ''field required'',
                       type = ''value_error.missing'', other_keys = []\<rparr>]"
            and sc = "example_scope [(''host'', ''api.example.com'')]" and hosts = None
            and rid = example_uuid and ih = "\<lambda>c. json_headers ''89''" and w = fresh_world,
          OF h1 h2 h3, THEN conjunct1]
  have g1: "wire (snd (app (\<lambda>c. json_headers ''89'') None example_uuid
                  (\<lambda>request state. Raises (RequestValidationError
                     [\<lparr>loc = [LocStr ''body'', LocStr ''email''], msg = ''field required'',
                       type = ''value_error.missing'', other_keys = []\<rparr>]))
                  (example_scope [(''host'', ''api.example.com'')]) server_send fresh_world)) =
       wire fresh_world @
       [ResponseStart 422
          (dict_update (dict_update [] (json_headers ''89'')) (security_headers example_uuid)),
        ResponseBody
          (JDict [(''detail'',
             JList [JDict [(''loc'', JList [JStr ''body'', JStr ''email'']),
                           (''msg'', JStr ''field required''),
                           (''type'', JStr ''value_error.missing'')]])])]"
    by (simp add: json_error_def json_loc_def)
  have h4: "(0::nat) < length [\<lparr>loc = [LocStr ''body'', LocStr ''items'', LocInt 3],
                          msg = ''value is not a valid integer'',
                          type = ''type_error.integer'', other_keys = []\<rparr>]"
    by simp
  from h4
    t [where errs = "[\<lparr>loc = [LocStr ''body'', LocStr ''items'', LocInt 3],
                          msg = ''value is not a valid integer'',
                          type = ''type_error.integer'', other_keys = []\<rparr>]"
         and sc = "example_scope [(''host'', ''api.example.com'')]" and hosts = None,
       OF h1 h2 h3, THEN conjunct2, THEN conjunct2, THEN conjunct2, THEN conjunct2,
       THEN spec, of 0]
  have g2: "field_errors [\<lparr>loc = [LocStr ''body'', LocStr ''items'', LocInt 3],
                      msg = ''value is not a valid integer'',
                      type = ''type_error.integer'', other_keys = []\<rparr>] [] ! 0 =
       JDict [(''field'', JStr ''body.items.3''),
              (''message'', JStr ''value is not a valid integer''),
              (''type'', JStr ''type_error.integer'')]"
    by (simp add: str_loc_def str_int_def digit_char_def)
  from h1 h2 h3 g1 h4 g2 show ?thesis by (intro conjI)
qed

subsection \<open>The host check and the size check\<close>

text \<open>
  Claim C4, amended. When the allow-list of the security middleware has no
  wildcard entry, the host check accepts a request if and only if the lower-cased
  declared host contains the lower-cased form of at least one entry of the list as
  a contiguous block (an absent host header counts as the empty string); with a
  wildcard entry in the list every request is accepted, and a missing or empty
  configured list is replaced by the wildcard list. When the check fails for an HTTP
  request, the middleware answers by itself with status 400 and does not call the
  application it wraps: in the whole application no route runs and the client
  gets that response.
\<close>

theorem validate_host_lowercased_containment:
  "(''*'' \<notin> set (allowed_hosts self) \<longrightarrow>
      validate_host self sc =
        (\<exists>a \<in> set (allowed_hosts self). \<exists>p q.
           lower (case headers_get (headers sc) ''host'' of None \<Rightarrow> [] | Some h \<Rightarrow> h)
             = p @ lower a @ q))
   \<and> (''*'' \<in> set (allowed_hosts self) \<longrightarrow> validate_host self sc)
   \<and> allowed_hosts (SecurityMiddleware_init None n) = [''*'']
   \<and> allowed_hosts (SecurityMiddleware_init (Some []) n) = [''*'']
   \<and> (scope_type sc = Http \<and> \<not> validate_host self sc \<longrightarrow>
        SecurityMiddleware_call ih self rid inner sc snd_fn w =
          (Inr (), response_call
             (JSONResponse ih 400 (JDict [(''detail'', JStr ''Invalid host header'')]))
             snd_fn (w\<lparr>state_request_id := Some rid\<rparr>)))
   \<and> (scope_type sc = Http
        \<and> \<not> validate_host (SecurityMiddleware_init hosts (10 * 1024 * 1024)) sc \<longrightarrow>
        wire (snd (app ih hosts rid route sc server_send w)) =
          wire w @ [ResponseStart 400 (ih (JDict [(''detail'', JStr ''Invalid host header'')])),
                    ResponseBody (JDict [(''detail'', JStr ''Invalid host header'')])]
        \<and> handler_calls (snd (app ih hosts rid route sc server_send w)) = handler_calls w)"
proof -
  have a: "''*'' \<notin> set (allowed_hosts self) \<longrightarrow>
      validate_host self sc =
        (\<exists>a \<in> set (allowed_hosts self). \<exists>p q.
           lower (case headers_get (headers sc) ''host'' of None \<Rightarrow> [] | Some h \<Rightarrow> h)
             = p @ lower a @ q)"
    by (simp add: validate_host_def Let_def list_ex_iff str_in_iff)
  have b: "''*'' \<in> set (allowed_hosts self) \<longrightarrow> validate_host self sc"
    by (simp add: validate_host_def)
  have c: "allowed_hosts (SecurityMiddleware_init None n) = [''*'']"
    "allowed_hosts (SecurityMiddleware_init (Some []) n) = [''*'']"
    by (simp_all add: SecurityMiddleware_init_def)
  have d: "scope_type sc = Http \<and> \<not> validate_host self sc \<longrightarrow>
        SecurityMiddleware_call ih self rid inner sc snd_fn w =
          (Inr (), response_call
             (JSONResponse ih 400 (JDict [(''detail'', JStr ''Invalid host header'')]))
             snd_fn (w\<lparr>state_request_id := Some rid\<rparr>))"
    by (simp add: SecurityMiddleware_call_def)
  have e: "scope_type sc = Http
        \<and> \<not> validate_host (SecurityMiddleware_init hosts (10 * 1024 * 1024)) sc \<longrightarrow>
        wire (snd (app ih hosts rid route sc server_send w)) =
          wire w @ [ResponseStart 400 (ih (JDict [(''detail'', JStr ''Invalid host header'')])),
                    ResponseBody (JDict [(''detail'', JStr ''Invalid host header'')])]
        \<and> handler_calls (snd (app ih hosts rid route sc server_send w)) = handler_calls w"
    by (simp add: pipeline_defs)
  from a b c d e show ?thesis by (intro conjI)
qed

theorem validate_host_lowercased_containment_witness:
  "''*'' \<notin> set (allowed_hosts (SecurityMiddleware_init (Some [''Example.com'']) 10485760))
   \<and> validate_host (SecurityMiddleware_init (Some [''Example.com'']) 10485760)
        (example_scope [(''host'', ''evilEXAMPLE.com.attacker.net'')])
   \<and> (\<exists>a \<in> set (allowed_hosts (SecurityMiddleware_init (Some [''Example.com'']) 10485760)).
        \<exists>p q. lower (case headers_get
                          (headers (example_scope [(''host'', ''evilEXAMPLE.com.attacker.net'')]))
                          ''host''
                      of None \<Rightarrow> [] | Some h \<Rightarrow> h) = p @ lower a @ q)
   \<and> ''*'' \<in> set (allowed_hosts (SecurityMiddleware_init None 10485760))
   \<and> validate_host (SecurityMiddleware_init None 10485760) (example_scope [(''host'', ''anything'')])
   \<and> scope_type (example_scope [(''host'', ''evil.org'')]) = Http
   \<and> \<not> validate_host (SecurityMiddleware_init (Some [''example.com'']) (10 * 1024 * 1024))
          (example_scope [(''host'', ''evil.org'')])
   \<and> handler_calls (snd (app (\<lambda>c. json_headers ''32'') (Some [''example.com'']) example_uuid
                             health_route (example_scope [(''host'', ''evil.org'')])
                             server_send fresh_world)) = handler_calls fresh_world"
proof -
  have h1: "''*'' \<notin> set (allowed_hosts (SecurityMiddleware_init (Some [''Example.com'']) 10485760))"
    by (simp add: example_defs)
  have h2: "validate_host (SecurityMiddleware_init (Some [''Example.com'']) 10485760)
        (example_scope [(''host'', ''evilEXAMPLE.com.attacker.net'')])"
    by (simp add: example_defs string_defs)
  have h3: "''*'' \<in> set (allowed_hosts (SecurityMiddleware_init None 10485760))"
    by (simp add: example_defs)
  have h4: "scope_type (example_scope [(''host'', ''evil.org'')]) = Http"
    by (simp add: example_defs)
  have h5: "\<not> validate_host (SecurityMiddleware_init (Some [''example.com'']) (10 * 1024 * 1024))
          (example_scope [(''host'', ''evil.org'')])"
    by (simp add: example_defs string_defs)
  note t = validate_host_lowercased_containment
  from h1 h2 t [where self = "SecurityMiddleware_init (Some [''Example.com'']) 10485760"
                  and sc = "example_scope [(''host'', ''evilEXAMPLE.com.attacker.net'')]",
                THEN conjunct1]
  have g1: "\<exists>a \<in> set (allowed_hosts (SecurityMiddleware_init (Some [''Example.com'']) 10485760)).
        \<exists>p q. lower (case headers_get
                          (headers (example_scope [(''host'', ''evilEXAMPLE.com.attacker.net'')]))
                          ''host''
                      of None \<Rightarrow> [] | Some h \<Rightarrow> h) = p @ lower a @ q"
    by blast
  from h3 t [where self = "SecurityMiddleware_init None 10485760"
               and sc = "example_scope [(''host'', ''anything'')]",
             THEN conjunct2, THEN conjunct1]
  have g2: "validate_host (SecurityMiddleware_init None 10485760) (example_scope [(''host'', ''anything'')])"
    by blast
  from h4 h5 t [where sc = "example_scope [(''host'', ''evil.org'')]"
                  and hosts = "Some [''example.com'']" and ih = "\<lambda>c. json_headers ''32''"
                  and rid = example_uuid and route = health_route and w = fresh_world,
                THEN conjunct2, THEN conjunct2, THEN conjunct2, THEN conjunct2, THEN conjunct2]
  have g3: "handler_calls (snd (app (\<lambda>c. json_headers ''32'') (Some [''example.com'']) example_uuid
                             health_route (example_scope [(''host'', ''evil.org'')])
                             server_send fresh_world)) = handler_calls fresh_world"
    by blast
  from h1 h2 g1 h3 g2 h4 h5 g3 show ?thesis by (intro conjI)
qed

text \<open>
  Claim C4 as stated fails for an allow-list entry with a capital letter: the
  lower-cased host does not contain the entry as it is written, yet the request is
  accepted, because the entry is lower-cased as well.
\<close>

theorem validate_host_uppercase_entry:
  "''*'' \<notin> set [''Example.COM'']
   \<and> validate_host \<lparr>allowed_hosts = [''Example.COM''], max_request_size = 10485760\<rparr>
        (example_scope [(''host'', ''example.com'')])
   \<and> \<not> list_ex (\<lambda>allowed_host. str_in allowed_host (lower ''example.com'')) [''Example.COM'']"
  by (simp add: example_defs string_defs)

text \<open>
  Claim C6, amended. For every HTTP request that passes the host check and whose
  \<^verbatim>\<open>Content-Length\<close> header is accepted by \<^verbatim>\<open>int\<close> with a value above the configured
  maximum, the security middleware answers by itself with status 413 and does not
  call the application it wraps; in the whole application no route runs. For every
  HTTP request that passes the host check and has no \<^verbatim>\<open>Content-Length\<close> header, the
  middleware hands the request on, without reading a body.
\<close>

theorem oversized_request_rejected:
  "(scope_type sc = Http \<and> validate_host self sc
      \<and> headers_get (headers sc) ''content-length'' = Some cl
      \<and> py_int cl = Some n \<and> n > max_request_size self \<longrightarrow>
      SecurityMiddleware_call ih self rid inner sc snd_fn w =
        (Inr (), response_call
           (JSONResponse ih 413 (JDict [(''detail'', JStr ''Request too large'')]))
           snd_fn (w\<lparr>state_request_id := Some rid\<rparr>)))
   \<and> (scope_type sc = Http
        \<and> validate_host (SecurityMiddleware_init hosts (10 * 1024 * 1024)) sc
        \<and> headers_get (headers sc) ''content-length'' = Some cl
        \<and> py_int cl = Some n \<and> n > 10 * 1024 * 1024 \<longrightarrow>
        wire (snd (app ih hosts rid route sc server_send w)) =
          wire w @ [ResponseStart 413 (ih (JDict [(''detail'', JStr ''Request too large'')])),
                    ResponseBody (JDict [(''detail'', JStr ''Request too large'')])]
        \<and> handler_calls (snd (app ih hosts rid route sc server_send w)) = handler_calls w)
   \<and> (scope_type sc = Http \<and> validate_host self sc
        \<and> headers_get (headers sc) ''content-length'' = None \<longrightarrow>
        SecurityMiddleware_call ih self rid inner sc snd_fn w =
          inner sc (security_send_wrapper snd_fn rid) (w\<lparr>state_request_id := Some rid\<rparr>))"
proof -
  have nonempty: "py_int cl = Some n \<Longrightarrow> cl \<noteq> []"
    by (auto simp: py_int_def strip_def)
  have a: "scope_type sc = Http \<and> validate_host self sc
      \<and> headers_get (headers sc) ''content-length'' = Some cl
      \<and> py_int cl = Some n \<and> n > max_request_size self \<longrightarrow>
      SecurityMiddleware_call ih self rid inner sc snd_fn w =
        (Inr (), response_call
           (JSONResponse ih 413 (JDict [(''detail'', JStr ''Request too large'')]))
           snd_fn (w\<lparr>state_request_id := Some rid\<rparr>))"
    using nonempty by (auto simp: SecurityMiddleware_call_def too_large_def)
  have b: "scope_type sc = Http
        \<and> validate_host (SecurityMiddleware_init hosts (10 * 1024 * 1024)) sc
        \<and> headers_get (headers sc) ''content-length'' = Some cl
        \<and> py_int cl = Some n \<and> n > 10 * 1024 * 1024 \<longrightarrow>
        wire (snd (app ih hosts rid route sc server_send w)) =
          wire w @ [ResponseStart 413 (ih (JDict [(''detail'', JStr ''Request too large'')])),
                    ResponseBody (JDict [(''detail'', JStr ''Request too large'')])]
        \<and> handler_calls (snd (app ih hosts rid route sc server_send w)) = handler_calls w"
    using nonempty
    by (auto simp: pipeline_defs too_large_def SecurityMiddleware_init_def)
  have c: "scope_type sc = Http \<and> validate_host self sc
        \<and> headers_get (headers sc) ''content-length'' = None \<longrightarrow>
        SecurityMiddleware_call ih self rid inner sc snd_fn w =
          inner sc (security_send_wrapper snd_fn rid) (w\<lparr>state_request_id := Some rid\<rparr>)"
    by (simp add: SecurityMiddleware_call_def too_large_def)
  from a b c show ?thesis by (intro conjI)
qed

theorem oversized_request_rejected_witness:
  "scope_type (example_scope [(''host'', ''api.example.com''), (''content-length'', ''10485761'')]) = Http
   \<and> validate_host (SecurityMiddleware_init (Some [''example.com'']) (10 * 1024 * 1024))
        (example_scope [(''host'', ''api.example.com''), (''content-length'', ''10485761'')])
   \<and> headers_get (headers (example_scope [(''host'', ''api.example.com''), (''content-length'', ''10485761'')]))
        ''content-length'' = Some ''10485761''
   \<and> py_int ''10485761'' = Some 10485761 \<and> (10485761::int) > 10 * 1024 * 1024
   \<and> wire (snd (app (\<lambda>c. json_headers ''30'') (Some [''example.com'']) example_uuid health_route
                  (example_scope [(''host'', ''api.example.com''), (''content-length'', ''10485761'')])
                  server_send fresh_world)) =
        wire fresh_world @
          [ResponseStart 413 (json_headers ''30''),
           ResponseBody (JDict [(''detail'', JStr ''Request too large'')])]
   \<and> handler_calls (snd (app (\<lambda>c. json_headers ''30'') (Some [''example.com'']) example_uuid health_route
                  (example_scope [(''host'', ''api.example.com''), (''content-length'', ''10485761'')])
                  server_send fresh_world)) = handler_calls fresh_world"
proof -
  have h1: "scope_type (example_scope [(''host'', ''api.example.com''), (''content-length'', ''10485761'')]) = Http"
    by (simp add: example_defs)
  have h2: "validate_host (SecurityMiddleware_init (Some [''example.com'']) (10 * 1024 * 1024))
        (example_scope [(''host'', ''api.example.com''), (''content-length'', ''10485761'')])"
    by (simp add: example_defs string_defs)
  have h3: "headers_get (headers (example_scope [(''host'', ''api.example.com''), (''content-length'', ''10485761'')]))
        ''content-length'' = Some ''10485761''"
    by (simp add: example_defs string_defs)
  have h4: "py_int ''10485761'' = Some 10485761"
    by (simp add: string_defs)
  have h5: "(10485761::int) > 10 * 1024 * 1024"
    by simp
  from h1 h2 h3 h4 h5
    oversized_request_rejected
      [where sc = "example_scope [(''host'', ''api.example.com''), (''content-length'', ''10485761'')]"
         and hosts = "Some [''example.com'']" and cl = "''10485761''" and n = 10485761
         and ih = "\<lambda>c. json_headers ''30''" and rid = example_uuid and route = health_route
         and w = fresh_world,
       THEN conjunct2, THEN conjunct1]
  have g: "wire (snd (app (\<lambda>c. json_headers ''30'') (Some [''example.com'']) example_uuid health_route
                  (example_scope [(''host'', ''api.example.com''), (''content-length'', ''10485761'')])
                  server_send fresh_world)) =
        wire fresh_world @
          [ResponseStart 413 (json_headers ''30''),
           ResponseBody (JDict [(''detail'', JStr ''Request too large'')])]
   \<and> handler_calls (snd (app (\<lambda>c. json_headers ''30'') (Some [''example.com'']) example_uuid health_route
                  (example_scope [(''host'', ''api.example.com''), (''content-length'', ''10485761'')])
                  server_send fresh_world)) = handler_calls fresh_world"
    by blast
  from h1 h2 h3 h4 h5 g show ?thesis by (intro conjI) blast+
qed

text \<open>
  Claim C6 as stated fails for a request whose host is not allowed: the host check
  comes first, and the response is 400, not 413, whatever the declared length.
\<close>

theorem oversized_request_with_rejected_host:
  "headers_get [(''host'', ''evil.org''), (''content-length'', ''99999999999'')] ''content-length''
     = Some ''99999999999''
   \<and> py_int ''99999999999'' = Some 99999999999
   \<and> (99999999999::int) > 10 * 1024 * 1024
   \<and> wire (snd (app (\<lambda>c. json_headers ''32'') (Some [''example.com'']) example_uuid health_route
                  (example_scope [(''host'', ''evil.org''), (''content-length'', ''99999999999'')])
                  server_send fresh_world))
       = [ResponseStart 400 (json_headers ''32''),
          ResponseBody (JDict [(''detail'', JStr ''Invalid host header'')])]"
  by (simp add: pipeline_defs example_defs string_defs)

subsection \<open>The rate limit answer and the unparseable length\<close>

text \<open>
  Claim C5, evaluated on the code. The claim wants a request that exceeds the rate
  limit to be answered with status 429 and a body with a numeric \<^verbatim>\<open>retry_after\<close>.
  The registered handler logs its warning and then reads an attribute that the
  exception does not have, so it raises before it has a response. For every HTTP
  request that passes the security middleware and whose route signals that the
  rate limit is exceeded: when the path of the URL can be read, the error handler
  middleware answers with status 500 and the generic internal error body, which
  holds the identifier of the request, and the response has the headers of the
  framework only; when reading the path raises, nothing is sent. The identifier is
  in the warning of the rate limit handler in both cases.
\<close>

theorem rate_limit_exceeded_answered_as_internal_error:
  assumes "scope_type sc = Http"
    and "validate_host (SecurityMiddleware_init hosts (10 * 1024 * 1024)) sc"
    and "too_large (SecurityMiddleware_init hosts (10 * 1024 * 1024))
           (headers_get (headers sc) ''content-length'') = Inr False"
    and "route sc (Some rid) = Raises (RateLimitExceeded d)"
  shows "(url_path sc = Inr p \<longrightarrow>
            fst (app ih hosts rid route sc server_send w) = Inr ()
          \<and> wire (snd (app ih hosts rid route sc server_send w)) =
              wire w @
              [ResponseStart 500
                 (ih (JDict [(''error'', JStr ''INTERNAL_SERVER_ERROR''),
                             (''detail'', JStr ''An internal server error occurred''),
                             (''request_id'', JStr rid)])),
               ResponseBody
                 (JDict [(''error'', JStr ''INTERNAL_SERVER_ERROR''),
                         (''detail'', JStr ''An internal server error occurred''),
                         (''request_id'', JStr rid)])]
          \<and> logs (snd (app ih hosts rid route sc server_send w)) =
              logs w @
              [(Info, ''Incoming request'',
                [(''method'', LJson (JStr (http_method sc))),
                 (''url'', LJson (JStr (url sc))),
                 (''user_agent'', LJson (opt_str (headers_get (headers sc) ''user-agent''))),
                 (''request_id'', LJson (opt_str (state_request_id w)))]),
               (Warning, ''Rate limit exceeded'',
                [(''client_ip'', LJson (JStr (get_remote_address sc))),
                 (''request_id'', LJson (JStr rid))]),
               (Error, ''Internal server error'',
                [(''error_type'', LTypeName (AttributeError ''RateLimitExceeded'' ''retry_after'')),
                 (''error_message'', LMessage (AttributeError ''RateLimitExceeded'' ''retry_after'')),
                 (''traceback'', LTraceback (AttributeError ''RateLimitExceeded'' ''retry_after'')),
                 (''request_id'', LJson (JStr rid)),
                 (''path'', LJson (JStr p)),
                 (''method'', LJson (JStr (http_method sc)))])])
       \<and> (url_path sc = Inl u \<longrightarrow>
            fst (app ih hosts rid route sc server_send w) = Inl u
          \<and> wire (snd (app ih hosts rid route sc server_send w)) = wire w
          \<and> logs (snd (app ih hosts rid route sc server_send w)) =
              logs w @
              [(Info, ''Incoming request'',
                [(''method'', LJson (JStr (http_method sc))),
                 (''url'', LJson (JStr (url sc))),
                 (''user_agent'', LJson (opt_str (headers_get (headers sc) ''user-agent''))),
                 (''request_id'', LJson (opt_str (state_request_id w)))]),
               (Warning, ''Rate limit exceeded'',
                [(''client_ip'', LJson (JStr (get_remote_address sc))),
                 (''request_id'', LJson (JStr rid))])])"
  using assms by (simp add: pipeline_defs opt_str_def)

theorem rate_limit_exceeded_answered_as_internal_error_witness:
  "scope_type (example_scope [(''host'', ''api.example.com'')]) = Http
   \<and> validate_host (SecurityMiddleware_init None (10 * 1024 * 1024))
        (example_scope [(''host'', ''api.example.com'')])
   \<and> too_large (SecurityMiddleware_init None (10 * 1024 * 1024))
        (headers_get (headers (example_scope [(''host'', ''api.example.com'')])) ''content-length'')
        = Inr False
   \<and> url_path (example_scope [(''host'', ''api.example.com'')]) = Inr ''/api/v1/health''
   \<and> wire (snd (app (\<lambda>c. json_headers ''130'') None example_uuid
                  (\<lambda>request state. Raises (RateLimitExceeded ''100 per 1 minute''))
                  (example_scope [(''host'', ''api.example.com'')]) server_send fresh_world)) =
         wire fresh_world @
           [ResponseStart 500 (json_headers ''130''),
            ResponseBody
              (JDict [(''error'', JStr ''INTERNAL_SERVER_ERROR''),
                      (''detail'', JStr ''An internal server error occurred''),
                      (''request_id'', JStr example_uuid)])]"
proof -
  have h1: "scope_type (example_scope [(''host'', ''api.example.com'')]) = Http"
    by (simp add: example_defs)
  have h2: "validate_host (SecurityMiddleware_init None (10 * 1024 * 1024))
        (example_scope [(''host'', ''api.example.com'')])"
    by (simp add: example_defs)
  have h3: "too_large (SecurityMiddleware_init None (10 * 1024 * 1024))
        (headers_get (headers (example_scope [(''host'', ''api.example.com'')])) ''content-length'')
        = Inr False"
    by (simp add: example_defs string_defs)
  have h4: "(\<lambda>request state. Raises (RateLimitExceeded ''100 per 1 minute''))
              (example_scope [(''host'', ''api.example.com'')]) (Some example_uuid)
            = Raises (RateLimitExceeded ''100 per 1 minute'')"
    by simp
  have h5: "url_path (example_scope [(''host'', ''api.example.com'')]) = Inr ''/api/v1/health''"
    by (simp add: example_defs)
  from h5
    rate_limit_exceeded_answered_as_internal_error
      [where route = "\<lambda>request state. Raises (RateLimitExceeded ''100 per 1 minute'')"
         and sc = "example_scope [(''host'', ''api.example.com'')]"
         and rid = example_uuid and hosts = None and p = "''/api/v1/health''"
         and ih = "\<lambda>c. json_headers ''130''" and w = fresh_world,
       OF h1 h2 h3 h4, THEN conjunct1]
  have g: "wire (snd (app (\<lambda>c. json_headers ''130'') None example_uuid
                  (\<lambda>request state. Raises (RateLimitExceeded ''100 per 1 minute''))
                  (example_scope [(''host'', ''api.example.com'')]) server_send fresh_world)) =
         wire fresh_world @
           [ResponseStart 500 (json_headers ''130''),
            ResponseBody
              (JDict [(''error'', JStr ''INTERNAL_SERVER_ERROR''),
                      (''detail'', JStr ''An internal server error occurred''),
                      (''request_id'', JStr example_uuid)])]"
    by blast
  from h1 h2 h3 h5 g show ?thesis by (intro conjI)
qed

text \<open>
  Claim C10, amended. For every HTTP request that passes the host check, whose URL
  has a path that can be read, and whose \<^verbatim>\<open>Content-Length\<close> header is present, not
  empty and not accepted by \<^verbatim>\<open>int\<close>, the size check of the security middleware
  raises the conversion error; the error handler middleware, which is outside the
  security middleware, answers with status 500 and the \<^verbatim>\<open>INTERNAL_SERVER_ERROR\<close>
  body, whose \<^verbatim>\<open>request_id\<close> is the identifier that the security middleware had
  stored for the request before the check; the response has the headers of the
  framework only, no route runs, and the error is logged.
\<close>

theorem unparseable_content_length:
  assumes "scope_type sc = Http"
    and "validate_host (SecurityMiddleware_init hosts (10 * 1024 * 1024)) sc"
    and "headers_get (headers sc) ''content-length'' = Some cl"
    and "cl \<noteq> []"
    and "py_int cl = None"
    and "url_path sc = Inr p"
  shows "SecurityMiddleware_call ih (SecurityMiddleware_init hosts (10 * 1024 * 1024)) rid inner
           sc snd_fn w
         = (Inl (ValueError cl), w\<lparr>state_request_id := Some rid\<rparr>)
       \<and> fst (app ih hosts rid route sc server_send w) = Inr ()
       \<and> wire (snd (app ih hosts rid route sc server_send w)) =
           wire w @
           [ResponseStart 500
              (ih (JDict [(''error'', JStr ''INTERNAL_SERVER_ERROR''),
                          (''detail'', JStr ''An internal server error occurred''),
                          (''request_id'', JStr rid)])),
            ResponseBody
              (JDict [(''error'', JStr ''INTERNAL_SERVER_ERROR''),
                      (''detail'', JStr ''An internal server error occurred''),
                      (''request_id'', JStr rid)])]
       \<and> handler_calls (snd (app ih hosts rid route sc server_send w)) = handler_calls w
       \<and> logs (snd (app ih hosts rid route sc server_send w)) =
           logs w @
           [(Info, ''Incoming request'',
             [(''method'', LJson (JStr (http_method sc))),
              (''url'', LJson (JStr (url sc))),
              (''user_agent'', LJson (opt_str (headers_get (headers sc) ''user-agent''))),
              (''request_id'', LJson (opt_str (state_request_id w)))]),
            (Error, ''Internal server error'',
             [(''error_type'', LTypeName (ValueError cl)),
              (''error_message'', LMessage (ValueError cl)),
              (''traceback'', LTraceback (ValueError cl)),
              (''request_id'', LJson (JStr rid)),
              (''path'', LJson (JStr p)),
              (''method'', LJson (JStr (http_method sc)))])]"
  using assms by (simp add: pipeline_defs too_large_def opt_str_def)

theorem unparseable_content_length_witness:
  "scope_type (example_scope [(''host'', ''api.example.com''), (''content-length'', ''abc'')]) = Http
   \<and> validate_host (SecurityMiddleware_init (Some [''example.com'']) (10 * 1024 * 1024))
        (example_scope [(''host'', ''api.example.com''), (''content-length'', ''abc'')])
   \<and> headers_get (headers (example_scope [(''host'', ''api.example.com''), (''content-length'', ''abc'')]))
        ''content-length'' = Some ''abc''
   \<and> ''abc'' \<noteq> []
   \<and> py_int ''abc'' = None
   \<and> url_path (example_scope [(''host'', ''api.example.com''), (''content-length'', ''abc'')])
        = Inr ''/api/v1/health''
   \<and> wire (snd (app (\<lambda>c. json_headers ''130'') (Some [''example.com'']) example_uuid health_route
                  (example_scope [(''host'', ''api.example.com''), (''content-length'', ''abc'')])
                  server_send fresh_world)) =
         wire fresh_world @
           [ResponseStart 500 (json_headers ''130''),
            ResponseBody
              (JDict [(''error'', JStr ''INTERNAL_SERVER_ERROR''),
                      (''detail'', JStr ''An internal server error occurred''),
                      (''request_id'', JStr example_uuid)])]"
proof -
  have h1: "scope_type (example_scope [(''host'', ''api.example.com''), (''content-length'', ''abc'')]) = Http"
    by (simp add: example_defs)
  have h2: "validate_host (SecurityMiddleware_init (Some [''example.com'']) (10 * 1024 * 1024))
        (example_scope [(''host'', ''api.example.com''), (''content-length'', ''abc'')])"
    by (simp add: example_defs string_defs)
  have h3: "headers_get (headers (example_scope [(''host'', ''api.example.com''), (''content-length'', ''abc'')]))
        ''content-length'' = Some ''abc''"
    by (simp add: example_defs string_defs)
  have h4: "''abc'' \<noteq> []"
    by simp
  have h5: "py_int ''abc'' = None"
    by (simp add: string_defs)
  have h6: "url_path (example_scope [(''host'', ''api.example.com''), (''content-length'', ''abc'')])
        = Inr ''/api/v1/health''"
    by (simp add: example_defs)
  from h1 h2 h3 h4 h5 h6
    unparseable_content_length
      [where sc = "example_scope [(''host'', ''api.example.com''), (''content-length'', ''abc'')]"
         and hosts = "Some [''example.com'']" and cl = "''abc''"
         and ih = "\<lambda>c. json_headers ''130''" and rid = example_uuid and route = health_route
         and w = fresh_world,
       OF h1 h2 h3 h4 h5 h6, THEN conjunct2, THEN conjunct2, THEN conjunct1]
  show ?thesis by (intro conjI)
qed

text \<open>
  Claim C10 as stated fails twice. With an allowed host, the body of the 500
  response holds the identifier of the request, not null; with a host that is not
  allowed, the host check answers 400 before the length is looked at.
\<close>

theorem unparseable_content_length_id_and_host:
  "wire (snd (app (\<lambda>c. json_headers ''130'') (Some [''example.com'']) example_uuid health_route
               (example_scope [(''host'', ''api.example.com''), (''content-length'', ''abc'')])
               server_send fresh_world)) ! 1
     = ResponseBody
         (JDict [(''error'', JStr ''INTERNAL_SERVER_ERROR''),
                 (''detail'', JStr ''An internal server error occurred''),
                 (''request_id'', JStr example_uuid)])
   \<and> json_field
        (JDict [(''error'', JStr ''INTERNAL_SERVER_ERROR''),
                (''detail'', JStr ''An internal server error occurred''),
                (''request_id'', JStr example_uuid)]) ''request_id'' \<noteq> Some JNull
   \<and> py_int ''abc'' = None
   \<and> wire (snd (app (\<lambda>c. json_headers ''32'') (Some [''example.com'']) example_uuid health_route
               (example_scope [(''host'', ''evil.org''), (''content-length'', ''abc'')])
               server_send fresh_world))
       = [ResponseStart 400 (json_headers ''32''),
          ResponseBody (JDict [(''detail'', JStr ''Invalid host header'')])]"
  by (simp add: pipeline_defs example_defs string_defs json_field_def opt_str_def)

end
